theory Spec2Isabelle
  imports Complex_Main "HOL-Library.Log_Nat" "HOL-Library.Multiset"
begin

section \<open>Data model (types/plan.ts, types/enhancement.ts)\<close>

text \<open>
  Dates are milliseconds since the epoch. JavaScript numbers that hold counts,
  versions and positions are integers here; the arithmetic on them is that of
  the numbers (section JavaScript numbers). Identities produced by
  \<^verbatim>\<open>crypto.randomUUID()\<close> and instants produced by \<^verbatim>\<open>new Date()\<close> are
  arguments of the operation that draws them.
\<close>

type_synonym date = int

datatype plan_type = Routine | Meal | Workout | Schedule | Custom
datatype item_type = Task | Event | Note | Reminder
datatype item_status = Pending | InProgress | Completed | Cancelled
datatype recurrence_pattern = Daily | Weekly | Monthly | CustomPattern
datatype flexibility = Strict | Moderate | Flexible
datatype priority = Low | Medium | High
datatype plan_source = UserInput | AiGenerated | Imported
datatype complexity = Simple | ModerateComplexity | Complex

record recurrence =
  pattern :: recurrence_pattern
  interval :: int
  daysOfWeek :: "int list option"
  rec_endDate :: "date option"

record timing_info =
  startTime :: "date option"
  endTime :: "date option"
  duration :: "int option"
  recurrence :: "recurrence option"

record schedule_info =
  startDate :: date
  endDate :: "date option"
  timeZone :: string
  sched_flexibility :: flexibility

record goal =
  goal_id :: string
  goal_description :: string
  targetDate :: "date option"
  goal_priority :: priority
  measurable :: bool

record plan_item =
  item_id :: string
  item_text :: string
  item_type :: item_type
  timing :: "timing_info option"
  status :: item_status
  aiGenerated :: bool
  parentId :: "string option"
  order :: int

record structured_plan_data =
  sd_type :: plan_type
  items :: "plan_item list"
  schedule :: "schedule_info option"
  goals :: "goal list option"
  tags :: "string list"
  category :: "string option"
  estimatedDuration :: "int option"

record plan_metadata =
  source :: plan_source
  language :: string
  meta_complexity :: complexity
  lastAiProcessed :: "date option"
  processingVersion :: "string option"

record natural_language_content =
  originalText :: string
  processedText :: "string option"
  content_confidence :: "rat option"
  ambiguities :: "string list option"

record plan =
  plan_id :: string
  userId :: string
  title :: string
  content :: natural_language_content
  structuredData :: structured_plan_data
  metadata :: plan_metadata
  version :: int
  createdAt :: date
  updatedAt :: date

text \<open>
  \<^verbatim>\<open>Partial<T>\<close>: a field of the patch is \<open>None\<close> when the key is not named and
  \<open>Some v\<close> when it is. For a field that is itself optional in \<^verbatim>\<open>T\<close> the named
  value may be \<^verbatim>\<open>undefined\<close>, which is \<open>Some None\<close>. A patch that names a
  required field with the value \<^verbatim>\<open>undefined\<close> would store a document that is
  not a Plan; such patches are outside the model.
\<close>

record structured_plan_data_patch =
  p_sd_type :: "plan_type option"
  p_items :: "plan_item list option"
  p_schedule :: "schedule_info option option"
  p_goals :: "goal list option option"
  p_tags :: "string list option"
  p_category :: "string option option"
  p_estimatedDuration :: "int option option"

record plan_item_patch =
  p_item_id :: "string option"
  p_item_text :: "string option"
  p_item_type :: "item_type option"
  p_timing :: "timing_info option option"
  p_status :: "item_status option"
  p_aiGenerated :: "bool option"
  p_parentId :: "string option option"
  p_order :: "int option"

text \<open>\<^verbatim>\<open>Omit<PlanItem, 'id' | 'order'>\<close>, the argument of addPlanItem.\<close>

record new_plan_item =
  n_item_text :: string
  n_item_type :: item_type
  n_timing :: "timing_info option"
  n_status :: item_status
  n_aiGenerated :: bool
  n_parentId :: "string option"

record create_plan_input =
  cp_title :: string
  cp_content :: natural_language_content
  cp_userId :: string
  cp_structuredData :: "structured_plan_data_patch option"

record update_plan_input =
  up_id :: string
  up_title :: "string option"
  up_content :: "natural_language_content option"
  up_structuredData :: "structured_plan_data_patch option"

text \<open>
  A value of type \<^verbatim>\<open>any\<close> carried by a change; an absent optional value is
  \<open>JUndefined\<close>.
\<close>

datatype js_value = JUndefined | JNull | JBool bool | JNumber int | JString string

datatype change_operation = Add | Modify | Remove
datatype enhancement_status = PendingStatus | Approved | Rejected
datatype enhancement_type = Structure | ScheduleEnhancement | Categorization | Optimization

record change =
  ch_operation :: change_operation
  target :: string
  oldValue :: js_value
  newValue :: js_value
  description :: string
  ch_confidence :: "rat option"

record enhancement =
  enh_id :: string
  enh_planId :: string
  enh_type :: enhancement_type
  changes :: "change list"
  confidence :: rat
  reasoning :: string
  enh_status :: enhancement_status
  enh_createdAt :: date
  appliedAt :: "date option"
  rejectedAt :: "date option"
  userFeedback :: "string option"

text \<open>
  The two shapes of \<^verbatim>\<open>rollbackData\<close> that the service writes: \<^verbatim>\<open>{operation, target}\<close>
  for an approved change and \<^verbatim>\<open>{isRollback: true, originalHistoryEntryId}\<close> for a
  rollback.
\<close>

datatype rollback_data = ChangeData change_operation string | IsRollback string

record change_history_entry =
  h_id :: string
  h_enhancementId :: string
  h_planId :: string
  changeId :: string
  h_appliedAt :: date
  appliedBy :: string
  originalValue :: js_value
  appliedValue :: js_value
  rollbackData :: "rollback_data option"

section \<open>JavaScript numbers\<close>

text \<open>
  A JavaScript number is a binary64 value, here the rational that it denotes. An
  arithmetic operation returns its exact result rounded by \<open>binary64\<close>: to the
  nearest number with a 53-bit significand, ties to the even significand. The
  exponent is not bounded (no subnormal numbers, no overflow): the numbers of
  the modelled calculations lie between \<open>2 powi - 32\<close> and \<open>2 ^ 53\<close>.
\<close>

definition round_ties_even :: "rat \<Rightarrow> int" where
  "round_ties_even x =
     (let f = \<lfloor>x\<rfloor>; r = x - of_int f
      in if r < 1 / 2 then f else if r > 1 / 2 then f + 1 else if even f then f else f + 1)"

text \<open>The exponent \<open>e\<close> of a positive \<open>x\<close>: \<open>2 powi e \<le> x < 2 powi (e + 1)\<close>.\<close>

definition ilog2 :: "rat \<Rightarrow> int" where
  "ilog2 x =
     (let (a, b) = quotient_of x;
          d = bitlen a - bitlen b
      in if 2 powi d \<le> x then d else d - 1)"

definition binary64 :: "rat \<Rightarrow> rat" where
  "binary64 x =
     (if x = 0 then 0
      else (let ulp = 2 powi (ilog2 \<bar>x\<bar> - 52) in of_int (round_ties_even (x / ulp)) * ulp))"

text \<open>\<^verbatim>\<open>Math.round\<close>: the nearest integer, a tie going up.\<close>

definition math_round :: "rat \<Rightarrow> int" where
  "math_round x = \<lfloor>x + 1 / 2\<rfloor>"

text \<open>
  \<^verbatim>\<open>a + b\<close> on integer-valued numbers: the exact sum rounded by \<open>binary64\<close>,
  which is an integer again.
\<close>

definition number_add :: "int \<Rightarrow> int \<Rightarrow> int" where
  "number_add a b = \<lfloor>binary64 (of_int a + of_int b)\<rfloor>"

section \<open>The IndexedDB service (services/indexeddb.ts)\<close>

datatype sync_operation = CreateOp | UpdateOp | DeleteOp

record sync_queue_item =
  sq_id :: string
  operation :: sync_operation
  sq_planId :: string
  data :: "plan option"
  timestamp :: date
  retryCount :: int

text \<open>
  Thrown values. \<open>Error m\<close> is \<^verbatim>\<open>new Error(m)\<close>; \<open>RequestError r\<close> is the
  \<^verbatim>\<open>request.error\<close> with which the enhancement service rejects when the IndexedDB
  request \<open>r\<close> fails; \<open>ReferenceError\<close> is raised by the runtime for a name that
  is not in scope.
\<close>

datatype idb_request =
    OpenDB | GetPlans | GetPlan | PutPlan | DeletePlan
  | PutSyncItem | GetAllSyncItems | DeleteSyncItem
  | GetEnhancement | GetEnhancementsByPlan | PutEnhancement | DeleteEnhancement
  | GetHistoryEntry | GetHistoryByPlan | GetHistoryByEnhancement | PutHistoryEntry

datatype error = Error string | RequestError idb_request | ReferenceError string

datatype event =
    PlanCreated plan | PlanUpdated plan | PlanDeleted string
  | PlansLoaded "plan list" | ErrorEvent error


text \<open>
  The database \<^verbatim>\<open>ai-planning-assistant\<close> with its object stores (each has
  \<^verbatim>\<open>keyPath: 'id'\<close>: at most one record per identity, \<^verbatim>\<open>put\<close> replaces the
  record with the same identity), the requests that currently fail, and the state
  of the plan service: its connectivity flag and the events it has emitted. A
  store is the list of its records in the order in which \<^verbatim>\<open>getAll\<close> returns
  them. Event listeners are taken not to throw.
\<close>

record world =
  plansStore :: "plan list"
  syncQueueStore :: "sync_queue_item list"
  enhancementsStore :: "enhancement list"
  changeHistoryStore :: "change_history_entry list"
  failing :: "idb_request list"
  isOnline :: bool
  emitted :: "event list"

definition store_get :: "('a \<Rightarrow> string) \<Rightarrow> string \<Rightarrow> 'a list \<Rightarrow> 'a option" where
  "store_get key k xs = find (\<lambda>y. key y = k) xs"

definition store_put :: "('a \<Rightarrow> string) \<Rightarrow> 'a \<Rightarrow> 'a list \<Rightarrow> 'a list" where
  "store_put key x xs =
     (if key x \<in> set (map key xs) then map (\<lambda>y. if key y = key x then x else y) xs
      else xs @ [x])"

definition store_delete :: "('a \<Rightarrow> string) \<Rightarrow> string \<Rightarrow> 'a list \<Rightarrow> 'a list" where
  "store_delete key k xs = filter (\<lambda>y. key y \<noteq> k) xs"

definition fails :: "idb_request \<Rightarrow> world \<Rightarrow> bool" where
  "fails r w = (r \<in> set (failing w))"

definition idb_init :: "world \<Rightarrow> error + unit" where
  "idb_init w = (if fails OpenDB w then Inl (Error ''Failed to open IndexedDB'') else Inr ())"

definition ensureDB :: "world \<Rightarrow> error + unit" where
  "ensureDB w = idb_init w"

definition idb_getPlans :: "string \<Rightarrow> world \<Rightarrow> error + plan list" where
  "idb_getPlans uid w =
     (case ensureDB w of Inl e \<Rightarrow> Inl e | Inr _ \<Rightarrow>
        if fails GetPlans w then Inl (Error ''Failed to get plans from IndexedDB'')
        else Inr (sort_key (\<lambda>p. - updatedAt p) (filter (\<lambda>p. userId p = uid) (plansStore w))))"

definition idb_getPlan :: "string \<Rightarrow> world \<Rightarrow> error + plan option" where
  "idb_getPlan planId w =
     (case ensureDB w of Inl e \<Rightarrow> Inl e | Inr _ \<Rightarrow>
        if fails GetPlan w then Inl (Error ''Failed to get plan from IndexedDB'')
        else Inr (store_get plan_id planId (plansStore w)))"

definition idb_savePlan :: "plan \<Rightarrow> world \<Rightarrow> error + world" where
  "idb_savePlan p w =
     (case ensureDB w of Inl e \<Rightarrow> Inl e | Inr _ \<Rightarrow>
        if fails PutPlan w then Inl (Error ''Failed to save plan to IndexedDB'')
        else Inr (w\<lparr>plansStore := store_put plan_id p (plansStore w)\<rparr>))"

definition idb_deletePlan :: "string \<Rightarrow> world \<Rightarrow> error + world" where
  "idb_deletePlan planId w =
     (case ensureDB w of Inl e \<Rightarrow> Inl e | Inr _ \<Rightarrow>
        if fails DeletePlan w then Inl (Error ''Failed to delete plan from IndexedDB'')
        else Inr (w\<lparr>plansStore := store_delete plan_id planId (plansStore w)\<rparr>))"

text \<open>
  addToSyncQueue receives operation, planId and data; it draws the identity
  \<open>uuid\<close> and the instant \<open>now\<close> and starts the retry counter at 0.
\<close>

definition idb_addToSyncQueue ::
  "sync_operation \<Rightarrow> string \<Rightarrow> plan option \<Rightarrow> string \<Rightarrow> date \<Rightarrow> world \<Rightarrow> error + world" where
  "idb_addToSyncQueue opn planId d uuid now w =
     (case ensureDB w of Inl e \<Rightarrow> Inl e | Inr _ \<Rightarrow>
        if fails PutSyncItem w then Inl (Error ''Failed to add item to sync queue'')
        else Inr (w\<lparr>syncQueueStore :=
               store_put sq_id
                 \<lparr>sq_id = uuid, operation = opn, sq_planId = planId, data = d,
                  timestamp = now, retryCount = 0\<rparr>
                 (syncQueueStore w)\<rparr>))"

definition idb_getSyncQueue :: "world \<Rightarrow> error + sync_queue_item list" where
  "idb_getSyncQueue w =
     (case ensureDB w of Inl e \<Rightarrow> Inl e | Inr _ \<Rightarrow>
        if fails GetAllSyncItems w then Inl (Error ''Failed to get sync queue'')
        else Inr (sort_key timestamp (syncQueueStore w)))"

definition idb_removeFromSyncQueue :: "string \<Rightarrow> world \<Rightarrow> error + world" where
  "idb_removeFromSyncQueue itemId w =
     (case ensureDB w of Inl e \<Rightarrow> Inl e | Inr _ \<Rightarrow>
        if fails DeleteSyncItem w then Inl (Error ''Failed to remove item from sync queue'')
        else Inr (w\<lparr>syncQueueStore := store_delete sq_id itemId (syncQueueStore w)\<rparr>))"

section \<open>The plan service (services/planService.ts)\<close>

definition emit :: "event \<Rightarrow> world \<Rightarrow> world" where
  "emit ev w = w\<lparr>emitted := emitted w @ [ev]\<rparr>"

text \<open>
  Every public method wraps its body in \<^verbatim>\<open>try { ... } catch (error) { emit('error', err);
  throw err }\<close>. A body returns its outcome together with the world it has reached.
\<close>

definition catch_emit :: "(error + 'a) \<times> world \<Rightarrow> (error + 'a) \<times> world" where
  "catch_emit r = (case r of (Inl e, w) \<Rightarrow> (Inl e, emit (ErrorEvent e) w) | (Inr v, w) \<Rightarrow> (Inr v, w))"

text \<open>Object spread of a partial structured payload over a full one.\<close>

definition spread_structuredData ::
  "structured_plan_data \<Rightarrow> structured_plan_data_patch option \<Rightarrow> structured_plan_data" where
  "spread_structuredData sd patch =
     (case patch of None \<Rightarrow> sd
      | Some q \<Rightarrow>
         \<lparr>sd_type = (case p_sd_type q of None \<Rightarrow> sd_type sd | Some v \<Rightarrow> v),
          items = (case p_items q of None \<Rightarrow> items sd | Some v \<Rightarrow> v),
          schedule = (case p_schedule q of None \<Rightarrow> schedule sd | Some v \<Rightarrow> v),
          goals = (case p_goals q of None \<Rightarrow> goals sd | Some v \<Rightarrow> v),
          tags = (case p_tags q of None \<Rightarrow> tags sd | Some v \<Rightarrow> v),
          category = (case p_category q of None \<Rightarrow> category sd | Some v \<Rightarrow> v),
          estimatedDuration =
            (case p_estimatedDuration q of None \<Rightarrow> estimatedDuration sd | Some v \<Rightarrow> v)\<rparr>)"

definition spread_item :: "plan_item \<Rightarrow> plan_item_patch \<Rightarrow> plan_item" where
  "spread_item it q =
     \<lparr>item_id = (case p_item_id q of None \<Rightarrow> item_id it | Some v \<Rightarrow> v),
      item_text = (case p_item_text q of None \<Rightarrow> item_text it | Some v \<Rightarrow> v),
      item_type = (case p_item_type q of None \<Rightarrow> item_type it | Some v \<Rightarrow> v),
      timing = (case p_timing q of None \<Rightarrow> timing it | Some v \<Rightarrow> v),
      status = (case p_status q of None \<Rightarrow> status it | Some v \<Rightarrow> v),
      aiGenerated = (case p_aiGenerated q of None \<Rightarrow> aiGenerated it | Some v \<Rightarrow> v),
      parentId = (case p_parentId q of None \<Rightarrow> parentId it | Some v \<Rightarrow> v),
      order = (case p_order q of None \<Rightarrow> order it | Some v \<Rightarrow> v)\<rparr>"

text \<open>
  The tail shared by every mutating method: save the plan, add it to the sync
  queue when offline, emit the event, return the plan.
\<close>

definition save_and_queue ::
  "sync_operation \<Rightarrow> plan \<Rightarrow> event \<Rightarrow> string \<Rightarrow> date \<Rightarrow> world \<Rightarrow> (error + plan) \<times> world" where
  "save_and_queue opn p ev quuid qnow w =
     (case idb_savePlan p w of Inl e \<Rightarrow> (Inl e, w)
      | Inr w1 \<Rightarrow>
         if \<not> isOnline w1 then
           (case idb_addToSyncQueue opn (plan_id p) (Some p) quuid qnow w1 of
              Inl e \<Rightarrow> (Inl e, w1)
            | Inr w2 \<Rightarrow> (Inr p, emit ev w2))
         else (Inr p, emit ev w1))"

definition createPlan ::
  "create_plan_input \<Rightarrow> string \<Rightarrow> date \<Rightarrow> string \<Rightarrow> date \<Rightarrow> world \<Rightarrow> (error + plan) \<times> world" where
  "createPlan input uuid now quuid qnow w =
     (let p = \<lparr>plan_id = uuid, userId = cp_userId input, title = cp_title input,
               content = cp_content input,
               structuredData =
                 spread_structuredData
                   \<lparr>sd_type = Custom, items = [], schedule = None, goals = None, tags = [],
                    category = None, estimatedDuration = None\<rparr>
                   (cp_structuredData input),
               metadata = \<lparr>source = UserInput, language = ''en'', meta_complexity = Simple,
                           lastAiProcessed = None, processingVersion = None\<rparr>,
               version = 1, createdAt = now, updatedAt = now\<rparr>
      in catch_emit
           (case idb_init w of Inl e \<Rightarrow> (Inl e, w)
            | Inr _ \<Rightarrow> save_and_queue CreateOp p (PlanCreated p) quuid qnow w))"

definition updatePlan ::
  "update_plan_input \<Rightarrow> date \<Rightarrow> string \<Rightarrow> date \<Rightarrow> world \<Rightarrow> (error + plan) \<times> world" where
  "updatePlan input now quuid qnow w =
     catch_emit
       (case idb_init w of Inl e \<Rightarrow> (Inl e, w)
        | Inr _ \<Rightarrow>
          (case idb_getPlan (up_id input) w of Inl e \<Rightarrow> (Inl e, w)
           | Inr None \<Rightarrow> (Inl (Error ''Plan not found''), w)
           | Inr (Some existingPlan) \<Rightarrow>
              (let updatedPlan = existingPlan
                     \<lparr>plan_id := up_id input,
                      title := (case up_title input of None \<Rightarrow> title existingPlan | Some t \<Rightarrow> t),
                      content :=
                        (case up_content input of None \<Rightarrow> content existingPlan | Some c \<Rightarrow> c),
                      structuredData :=
                        spread_structuredData (structuredData existingPlan)
                          (up_structuredData input),
                      version := number_add (version existingPlan) 1,
                      updatedAt := now\<rparr>
               in save_and_queue UpdateOp updatedPlan (PlanUpdated updatedPlan) quuid qnow w)))"

definition deletePlan :: "string \<Rightarrow> string \<Rightarrow> date \<Rightarrow> world \<Rightarrow> (error + unit) \<times> world" where
  "deletePlan planId quuid qnow w =
     catch_emit
       (case idb_init w of Inl e \<Rightarrow> (Inl e, w)
        | Inr _ \<Rightarrow>
          (case idb_deletePlan planId w of Inl e \<Rightarrow> (Inl e, w)
           | Inr w1 \<Rightarrow>
              if \<not> isOnline w1 then
                (case idb_addToSyncQueue DeleteOp planId None quuid qnow w1 of
                   Inl e \<Rightarrow> (Inl e, w1)
                 | Inr w2 \<Rightarrow> (Inr (), emit (PlanDeleted planId) w2))
              else (Inr (), emit (PlanDeleted planId) w1)))"

definition addPlanItem ::
  "string \<Rightarrow> new_plan_item \<Rightarrow> string \<Rightarrow> date \<Rightarrow> string \<Rightarrow> date \<Rightarrow> world
     \<Rightarrow> (error + plan) \<times> world" where
  "addPlanItem planId item uuid now quuid qnow w =
     catch_emit
       (case idb_init w of Inl e \<Rightarrow> (Inl e, w)
        | Inr _ \<Rightarrow>
          (case idb_getPlan planId w of Inl e \<Rightarrow> (Inl e, w)
           | Inr None \<Rightarrow> (Inl (Error ''Plan not found''), w)
           | Inr (Some p) \<Rightarrow>
              (let newItem =
                     \<lparr>item_id = uuid, item_text = n_item_text item, item_type = n_item_type item,
                      timing = n_timing item, status = n_status item,
                      aiGenerated = n_aiGenerated item, parentId = n_parentId item,
                      order = int (length (items (structuredData p)))\<rparr>;
                   updatedPlan = p
                     \<lparr>structuredData :=
                        (structuredData p)\<lparr>items := items (structuredData p) @ [newItem]\<rparr>,
                      version := number_add (version p) 1,
                      updatedAt := now\<rparr>
               in save_and_queue UpdateOp updatedPlan (PlanUpdated updatedPlan) quuid qnow w)))"

text \<open>\<^verbatim>\<open>items.findIndex(item => item.id === itemId)\<close>, with \<open>None\<close> for \<^verbatim>\<open>-1\<close>.\<close>

fun findIndex :: "('a \<Rightarrow> bool) \<Rightarrow> 'a list \<Rightarrow> nat option" where
  "findIndex P [] = None"
| "findIndex P (x # xs) =
     (if P x then Some 0 else (case findIndex P xs of None \<Rightarrow> None | Some i \<Rightarrow> Some (Suc i)))"

definition updatePlanItem ::
  "string \<Rightarrow> string \<Rightarrow> plan_item_patch \<Rightarrow> date \<Rightarrow> string \<Rightarrow> date \<Rightarrow> world
     \<Rightarrow> (error + plan) \<times> world" where
  "updatePlanItem planId itemId updates now quuid qnow w =
     catch_emit
       (case idb_init w of Inl e \<Rightarrow> (Inl e, w)
        | Inr _ \<Rightarrow>
          (case idb_getPlan planId w of Inl e \<Rightarrow> (Inl e, w)
           | Inr None \<Rightarrow> (Inl (Error ''Plan not found''), w)
           | Inr (Some p) \<Rightarrow>
              (case findIndex (\<lambda>item. item_id item = itemId) (items (structuredData p)) of
                 None \<Rightarrow> (Inl (Error ''Plan item not found''), w)
               | Some itemIndex \<Rightarrow>
                  (let updatedItems = (items (structuredData p))
                         [itemIndex := spread_item (items (structuredData p) ! itemIndex) updates];
                       updatedPlan = p
                         \<lparr>structuredData := (structuredData p)\<lparr>items := updatedItems\<rparr>,
                          version := number_add (version p) 1,
                          updatedAt := now\<rparr>
                   in save_and_queue UpdateOp updatedPlan (PlanUpdated updatedPlan)
                        quuid qnow w))))"

text \<open>\<^verbatim>\<open>updatedItems.forEach((item, index) => { item.order = index })\<close>.\<close>

definition reorder :: "plan_item list \<Rightarrow> plan_item list" where
  "reorder xs = map (\<lambda>(item, index). item\<lparr>order := int index\<rparr>) (zip xs [0..<length xs])"

definition removePlanItem ::
  "string \<Rightarrow> string \<Rightarrow> date \<Rightarrow> string \<Rightarrow> date \<Rightarrow> world \<Rightarrow> (error + plan) \<times> world" where
  "removePlanItem planId itemId now quuid qnow w =
     catch_emit
       (case idb_init w of Inl e \<Rightarrow> (Inl e, w)
        | Inr _ \<Rightarrow>
          (case idb_getPlan planId w of Inl e \<Rightarrow> (Inl e, w)
           | Inr None \<Rightarrow> (Inl (Error ''Plan not found''), w)
           | Inr (Some p) \<Rightarrow>
              (let updatedItems =
                     reorder (filter (\<lambda>item. item_id item \<noteq> itemId) (items (structuredData p)));
                   updatedPlan = p
                     \<lparr>structuredData := (structuredData p)\<lparr>items := updatedItems\<rparr>,
                      version := number_add (version p) 1,
                      updatedAt := now\<rparr>
               in save_and_queue UpdateOp updatedPlan (PlanUpdated updatedPlan) quuid qnow w)))"

text \<open>
  processSyncQueue: a failure of a single removal is logged and the loop goes on;
  a failure of init or of the queue read is logged and nothing is removed.
\<close>

fun drain :: "sync_queue_item list \<Rightarrow> world \<Rightarrow> world" where
  "drain [] w = w"
| "drain (item # rest) w =
     (case idb_removeFromSyncQueue (sq_id item) w of
        Inl e \<Rightarrow> drain rest w
      | Inr w1 \<Rightarrow> drain rest w1)"

definition processSyncQueue :: "world \<Rightarrow> world" where
  "processSyncQueue w =
     (case idb_init w of Inl e \<Rightarrow> w
      | Inr _ \<Rightarrow>
        (case idb_getSyncQueue w of Inl e \<Rightarrow> w
         | Inr syncQueue \<Rightarrow> drain syncQueue w))"

text \<open>The handlers of the window's online and offline events.\<close>

definition goOnline :: "world \<Rightarrow> world" where
  "goOnline w = processSyncQueue (w\<lparr>isOnline := True\<rparr>)"

definition goOffline :: "world \<Rightarrow> world" where
  "goOffline w = w\<lparr>isOnline := False\<rparr>"

record sync_status_item =
  st_id :: string
  st_operation :: sync_operation
  st_planId :: string
  st_timestamp :: date
  st_retryCount :: int

record sync_queue_status =
  pending :: int
  status_items :: "sync_status_item list"

definition getSyncQueueStatus :: "world \<Rightarrow> error + sync_queue_status" where
  "getSyncQueueStatus w =
     (case (case idb_init w of Inl e \<Rightarrow> Inl e
            | Inr _ \<Rightarrow>
              (case idb_getSyncQueue w of Inl e \<Rightarrow> Inl e
               | Inr qitems \<Rightarrow>
                  Inr \<lparr>pending = int (length qitems),
                       status_items =
                         map (\<lambda>item. \<lparr>st_id = sq_id item, st_operation = operation item,
                                       st_planId = sq_planId item,
                                       st_timestamp = timestamp item,
                                       st_retryCount = retryCount item\<rparr>) qitems\<rparr>))
      of Inl e \<Rightarrow> Inr \<lparr>pending = 0, status_items = []\<rparr>
       | Inr r \<Rightarrow> Inr r)"


section \<open>The enhancement service (services/enhancementService.ts)\<close>

record batch_operation_result =
  successful :: "string list"
  failed :: "(string \<times> error) list"

text \<open>
  An entry of \<open>failed\<close> pairs the identity with the error whose message the source
  stores. The service rejects with the failed request's own error.
\<close>

definition enh_ensureDB :: "world \<Rightarrow> error + unit" where
  "enh_ensureDB w = (if fails OpenDB w then Inl (RequestError OpenDB) else Inr ())"

definition getEnhancementById :: "string \<Rightarrow> world \<Rightarrow> error + enhancement option" where
  "getEnhancementById enhancementId w =
     (case enh_ensureDB w of Inl e \<Rightarrow> Inl e | Inr _ \<Rightarrow>
        if fails GetEnhancement w then Inl (RequestError GetEnhancement)
        else Inr (store_get enh_id enhancementId (enhancementsStore w)))"

definition saveEnhancement :: "enhancement \<Rightarrow> world \<Rightarrow> error + world" where
  "saveEnhancement enh w =
     (case enh_ensureDB w of Inl e \<Rightarrow> Inl e | Inr _ \<Rightarrow>
        if fails PutEnhancement w then Inl (RequestError PutEnhancement)
        else Inr (w\<lparr>enhancementsStore := store_put enh_id enh (enhancementsStore w)\<rparr>))"

definition saveChangeHistory :: "change_history_entry list \<Rightarrow> world \<Rightarrow> error + world" where
  "saveChangeHistory entries w =
     (case enh_ensureDB w of Inl e \<Rightarrow> Inl e | Inr _ \<Rightarrow>
        if entries = [] then Inr w
        else if fails PutHistoryEntry w then Inl (RequestError PutHistoryEntry)
        else Inr (w\<lparr>changeHistoryStore :=
                      foldl (\<lambda>st entry. store_put h_id entry st) (changeHistoryStore w) entries\<rparr>))"

definition getHistoryEntry :: "string \<Rightarrow> world \<Rightarrow> error + change_history_entry option" where
  "getHistoryEntry historyEntryId w =
     (if fails GetHistoryEntry w then Inl (RequestError GetHistoryEntry)
      else Inr (store_get h_id historyEntryId (changeHistoryStore w)))"

subsection \<open>Change addressing\<close>

definition is_digit :: "char \<Rightarrow> bool" where
  "is_digit c = (c \<in> set ''0123456789'')"

definition digit_value :: "char \<Rightarrow> nat" where
  "digit_value c = of_char c - 48"

text \<open>\<^verbatim>\<open>parseInt(ds, 10)\<close> on a non-empty string of decimal digits.\<close>

definition parseInt :: "string \<Rightarrow> int" where
  "parseInt ds = int (foldl (\<lambda>a c. 10 * a + digit_value c) 0 ds)"

text \<open>
  \<^verbatim>\<open>changeId.match(/-change-(\d+)$/)\<close>: the group is the longest run of digits at the
  end of the string, and the match succeeds when that run is not empty and
  \<^verbatim>\<open>-change-\<close> stands right before it.
\<close>

definition extractChangeIndex :: "string \<Rightarrow> int" where
  "extractChangeIndex cid =
     (let r = rev cid; ds = takeWhile is_digit r; rest = dropWhile is_digit r
      in if ds \<noteq> [] \<and> take 8 rest = rev ''-change-'' then parseInt (rev ds) else - 1)"

text \<open>The decimal rendering of an index inside a template literal.\<close>

definition digit_char :: "nat \<Rightarrow> char" where
  "digit_char d = ''0123456789'' ! d"

fun string_of_nat :: "nat \<Rightarrow> string" where
  "string_of_nat n =
     (let q = n div 10
      in if q = 0 then [digit_char n] else string_of_nat q @ [digit_char (n mod 10)])"

declare string_of_nat.simps [simp del]

text \<open>\<^verbatim>\<open>enhancement.changes.map((_, index) => `${enhancementId}-change-${index}`)\<close>.\<close>

definition all_change_ids :: "string \<Rightarrow> enhancement \<Rightarrow> string list" where
  "all_change_ids enhancementId enh =
     map (\<lambda>index. enhancementId @ ''-change-'' @ string_of_nat index) [0..<length (changes enh)]"

text \<open>\<^verbatim>\<open>enhancement.changes[changeIndex]\<close>, \<open>None\<close> for \<^verbatim>\<open>undefined\<close>.\<close>

definition change_at :: "enhancement \<Rightarrow> int \<Rightarrow> change option" where
  "change_at enh i =
     (if 0 \<le> i \<and> i < int (length (changes enh)) then Some (changes enh ! nat i) else None)"

subsection \<open>approve, reject, edit\<close>

text \<open>
  The loop of approveChanges over the addressed identities. The \<open>k\<close>-th identity
  draws the identity \<open>uuid k\<close> and the instant \<open>now k\<close> for its history entry.
\<close>

fun approve_loop ::
  "enhancement \<Rightarrow> string \<Rightarrow> string \<Rightarrow> (nat \<Rightarrow> string) \<Rightarrow> (nat \<Rightarrow> date) \<Rightarrow> nat \<Rightarrow> string list
     \<Rightarrow> change_history_entry list \<times> batch_operation_result
     \<Rightarrow> change_history_entry list \<times> batch_operation_result" where
  "approve_loop enh enhancementId byUser uuid now k [] acc = acc"
| "approve_loop enh enhancementId byUser uuid now k (cid # rest) (historyEntries, result) =
     (case change_at enh (extractChangeIndex cid) of
        None \<Rightarrow>
          approve_loop enh enhancementId byUser uuid now (Suc k) rest
            (historyEntries, result\<lparr>failed := failed result @ [(cid, Error ''Change not found'')]\<rparr>)
      | Some c \<Rightarrow>
          approve_loop enh enhancementId byUser uuid now (Suc k) rest
            (historyEntries @
               [\<lparr>h_id = uuid k, h_enhancementId = enhancementId, h_planId = enh_planId enh,
                 changeId = cid, h_appliedAt = now k, appliedBy = byUser,
                 originalValue = oldValue c, appliedValue = newValue c,
                 rollbackData = Some (ChangeData (ch_operation c) (target c))\<rparr>],
             result\<lparr>successful := successful result @ [cid]\<rparr>))"

text \<open>
  The handler of the outer \<^verbatim>\<open>try\<close> of approveChanges reads \<^verbatim>\<open>changesToApprove\<close>,
  a \<^verbatim>\<open>const\<close> of the \<^verbatim>\<open>try\<close> block that is not in scope there, so a failed
  save ends the call with a ReferenceError.
\<close>

definition approveChanges ::
  "string \<Rightarrow> string list option \<Rightarrow> string \<Rightarrow> (nat \<Rightarrow> string) \<Rightarrow> (nat \<Rightarrow> date) \<Rightarrow> date \<Rightarrow> world
     \<Rightarrow> (error + batch_operation_result) \<times> world" where
  "approveChanges enhancementId changeIds byUser uuid now appliedNow w =
     (case getEnhancementById enhancementId w of Inl e \<Rightarrow> (Inl e, w)
      | Inr None \<Rightarrow> (Inl (Error (''Enhancement '' @ enhancementId @ '' not found'')), w)
      | Inr (Some enh) \<Rightarrow>
         (let changesToApprove =
                (case changeIds of Some ids \<Rightarrow> ids | None \<Rightarrow> all_change_ids enhancementId enh);
              (historyEntries, result) =
                approve_loop enh enhancementId byUser uuid now 0 changesToApprove
                  ([], \<lparr>successful = [], failed = []\<rparr>)
          in (case saveChangeHistory historyEntries w of
                Inl e \<Rightarrow> (Inl (ReferenceError ''changesToApprove is not defined''), w)
              | Inr w1 \<Rightarrow>
                 (case saveEnhancement (enh\<lparr>enh_status := Approved, appliedAt := Some appliedNow\<rparr>) w1 of
                    Inl e \<Rightarrow> (Inl (ReferenceError ''changesToApprove is not defined''), w1)
                  | Inr w2 \<Rightarrow> (Inr result, w2)))))"

definition rejectChanges ::
  "string \<Rightarrow> string list option \<Rightarrow> string option \<Rightarrow> string \<Rightarrow> date \<Rightarrow> world
     \<Rightarrow> (error + batch_operation_result) \<times> world" where
  "rejectChanges enhancementId changeIds feedback byUser now w =
     (case getEnhancementById enhancementId w of Inl e \<Rightarrow> (Inl e, w)
      | Inr None \<Rightarrow> (Inl (Error (''Enhancement '' @ enhancementId @ '' not found'')), w)
      | Inr (Some enh) \<Rightarrow>
         (let changesToReject =
                (case changeIds of Some ids \<Rightarrow> ids | None \<Rightarrow> all_change_ids enhancementId enh)
          in (case saveEnhancement
                     (enh\<lparr>enh_status := Rejected, rejectedAt := Some now, userFeedback := feedback\<rparr>) w of
                Inl e \<Rightarrow>
                  (Inr \<lparr>successful = [], failed = map (\<lambda>cid. (cid, e)) changesToReject\<rparr>, w)
              | Inr w1 \<Rightarrow> (Inr \<lparr>successful = changesToReject, failed = []\<rparr>, w1))))"

definition editChange ::
  "string \<Rightarrow> string \<Rightarrow> js_value \<Rightarrow> string \<Rightarrow> world \<Rightarrow> (error + unit) \<times> world" where
  "editChange enhancementId cid newVal byUser w =
     (case getEnhancementById enhancementId w of Inl e \<Rightarrow> (Inl e, w)
      | Inr None \<Rightarrow> (Inl (Error (''Enhancement '' @ enhancementId @ '' not found'')), w)
      | Inr (Some enh) \<Rightarrow>
         (let changeIndex = extractChangeIndex cid
          in if changeIndex < 0 \<or> changeIndex \<ge> int (length (changes enh))
             then (Inl (Error (''Change '' @ cid @ '' not found'')), w)
             else
               (let c = changes enh ! nat changeIndex;
                    updatedChanges = (changes enh)
                      [nat changeIndex :=
                         c\<lparr>newValue := newVal,
                           description := description c @ '' (edited by user)''\<rparr>]
                in (case saveEnhancement (enh\<lparr>changes := updatedChanges\<rparr>) w of
                      Inl e \<Rightarrow> (Inl e, w)
                    | Inr w1 \<Rightarrow> (Inr (), w1)))))"

subsection \<open>Rollback\<close>

text \<open>
  \<^verbatim>\<open>historyEntry.rollbackData?.target || 'unknown'\<close>: only the rollbackData of an
  approved change has a target, and an empty target is falsy.
\<close>

definition rollback_target :: "change_history_entry \<Rightarrow> string" where
  "rollback_target h =
     (case rollbackData h of
        Some (ChangeData opn t) \<Rightarrow> (if t = [] then ''unknown'' else t)
      | _ \<Rightarrow> ''unknown'')"

text \<open>
  rollbackChange draws the identity of the rollback enhancement and of the new
  history entry and three instants; \<open>toLocaleString\<close> is the locale's rendering
  of a date.
\<close>

definition rollbackChange ::
  "string \<Rightarrow> string \<Rightarrow> (date \<Rightarrow> string) \<Rightarrow> string \<Rightarrow> string \<Rightarrow> date \<Rightarrow> date \<Rightarrow> date \<Rightarrow> world
     \<Rightarrow> (error + unit) \<times> world" where
  "rollbackChange historyEntryId byUser toLocaleString enhUuid histUuid created applied now w =
     (case enh_ensureDB w of Inl e \<Rightarrow> (Inl e, w)
      | Inr _ \<Rightarrow>
        (case getHistoryEntry historyEntryId w of Inl e \<Rightarrow> (Inl e, w)
         | Inr None \<Rightarrow> (Inl (Error (''History entry '' @ historyEntryId @ '' not found'')), w)
         | Inr (Some historyEntry) \<Rightarrow>
            (let rollbackEnhancement =
                   \<lparr>enh_id = enhUuid, enh_planId = h_planId historyEntry, enh_type = Optimization,
                    changes =
                      [\<lparr>ch_operation = Modify, target = rollback_target historyEntry,
                        oldValue = appliedValue historyEntry,
                        newValue = originalValue historyEntry,
                        description =
                          ''Rollback of change from '' @ toLocaleString (h_appliedAt historyEntry),
                        ch_confidence = Some 1\<rparr>],
                    confidence = 1, reasoning = ''User-requested rollback of previous change'',
                    enh_status = Approved, enh_createdAt = created, appliedAt = Some applied,
                    rejectedAt = None, userFeedback = None\<rparr>
             in (case saveEnhancement rollbackEnhancement w of Inl e \<Rightarrow> (Inl e, w)
                 | Inr w1 \<Rightarrow>
                    (let rollbackHistoryEntry =
                           \<lparr>h_id = histUuid, h_enhancementId = enh_id rollbackEnhancement,
                            h_planId = h_planId historyEntry,
                            changeId = enh_id rollbackEnhancement @ ''-change-0'',
                            h_appliedAt = now, appliedBy = byUser,
                            originalValue = appliedValue historyEntry,
                            appliedValue = originalValue historyEntry,
                            rollbackData = Some (IsRollback historyEntryId)\<rparr>
                     in (case saveChangeHistory [rollbackHistoryEntry] w1 of
                           Inl e \<Rightarrow> (Inl e, w1)
                         | Inr w2 \<Rightarrow> (Inr (), w2)))))))"

section \<open>Completion percentage (hooks/usePlanContext.tsx)\<close>

definition getPlan :: "plan list \<Rightarrow> string \<Rightarrow> plan option" where
  "getPlan plans planId = find (\<lambda>p. plan_id p = planId) plans"

definition getCompletedItemsCount :: "plan list \<Rightarrow> string \<Rightarrow> nat" where
  "getCompletedItemsCount plans planId =
     (case getPlan plans planId of
        None \<Rightarrow> 0
      | Some p \<Rightarrow> length (filter (\<lambda>item. status item = Completed) (items (structuredData p))))"

definition getTotalItemsCount :: "plan list \<Rightarrow> string \<Rightarrow> nat" where
  "getTotalItemsCount plans planId =
     (case getPlan plans planId of
        None \<Rightarrow> 0
      | Some p \<Rightarrow> length (items (structuredData p)))"

definition getCompletionPercentage :: "plan list \<Rightarrow> string \<Rightarrow> int" where
  "getCompletionPercentage plans planId =
     (let total = getTotalItemsCount plans planId
      in if total = 0 then 0
         else (let completed = getCompletedItemsCount plans planId
               in math_round (binary64 (binary64 (of_nat completed / of_nat total) * 100))))"

text \<open>
  The formula of the specification, \<open>round(100 \<times> completed / total)\<close>, in exact
  arithmetic.
\<close>

definition rounded_percentage :: "nat \<Rightarrow> nat \<Rightarrow> int" where
  "rounded_percentage completed totalItems =
     math_round (100 * of_nat completed / of_nat totalItems)"

section \<open>The order invariant\<close>


section \<open>Sequences of mutations of one plan\<close>

text \<open>
  A mutating call of the plan service with the values it draws, and the run of a
  list of such calls one after the other, whether they succeed or fail, which
  returns the number of calls that succeeded and the world reached.
\<close>

datatype mutation =
    UpdatePlan update_plan_input date string date
  | AddPlanItem string new_plan_item string date string date
  | UpdatePlanItem string string plan_item_patch date string date
  | RemovePlanItem string string date string date

fun mutation_planId :: "mutation \<Rightarrow> string" where
  "mutation_planId (UpdatePlan input now quuid qnow) = up_id input"
| "mutation_planId (AddPlanItem planId item uuid now quuid qnow) = planId"
| "mutation_planId (UpdatePlanItem planId itemId updates now quuid qnow) = planId"
| "mutation_planId (RemovePlanItem planId itemId now quuid qnow) = planId"

fun apply_mutation :: "mutation \<Rightarrow> world \<Rightarrow> (error + plan) \<times> world" where
  "apply_mutation (UpdatePlan input now quuid qnow) w = updatePlan input now quuid qnow w"
| "apply_mutation (AddPlanItem planId item uuid now quuid qnow) w =
     addPlanItem planId item uuid now quuid qnow w"
| "apply_mutation (UpdatePlanItem planId itemId updates now quuid qnow) w =
     updatePlanItem planId itemId updates now quuid qnow w"
| "apply_mutation (RemovePlanItem planId itemId now quuid qnow) w =
     removePlanItem planId itemId now quuid qnow w"

fun run_all :: "mutation list \<Rightarrow> world \<Rightarrow> nat \<times> world" where
  "run_all [] w = (0, w)"
| "run_all (m # ms) w =
     (case apply_mutation m w of
        (Inl e, w1) \<Rightarrow> run_all ms w1
      | (Inr p, w1) \<Rightarrow> (case run_all ms w1 of (n, w2) \<Rightarrow> (Suc n, w2)))"

text \<open>
  What a call needs in the stored plan in order to succeed on a healthy store:
  updatePlanItem needs an item with the given identity.
\<close>

fun mutation_applicable :: "mutation \<Rightarrow> plan \<Rightarrow> bool" where
  "mutation_applicable (UpdatePlanItem planId itemId updates now quuid qnow) p =
     (itemId \<in> set (map item_id (items (structuredData p))))"
| "mutation_applicable m p = True"

section \<open>Example data\<close>

definition empty_world :: world where
  "empty_world =
     \<lparr>plansStore = [], syncQueueStore = [], enhancementsStore = [], changeHistoryStore = [],
      failing = [], isOnline = True, emitted = []\<rparr>"

definition morning_input :: create_plan_input where
  "morning_input =
     \<lparr>cp_title = ''Morning Routine'',
      cp_content = \<lparr>originalText = ''Wake up early'', processedText = None,
                    content_confidence = None, ambiguities = None\<rparr>,
      cp_userId = ''user-1'', cp_structuredData = None\<rparr>"

definition morning_plan :: plan where
  "morning_plan =
     \<lparr>plan_id = ''plan-1'', userId = ''user-1'', title = ''Morning Routine'',
      content = \<lparr>originalText = ''Wake up early'', processedText = None,
                 content_confidence = None, ambiguities = None\<rparr>,
      structuredData = \<lparr>sd_type = Custom, items = [], schedule = None, goals = None, tags = [],
                        category = None, estimatedDuration = None\<rparr>,
      metadata = \<lparr>source = UserInput, language = ''en'', meta_complexity = Simple,
                  lastAiProcessed = None, processingVersion = None\<rparr>,
      version = 1, createdAt = 1000, updatedAt = 1000\<rparr>"

definition morning_world :: world where
  "morning_world = empty_world\<lparr>plansStore := [morning_plan], emitted := [PlanCreated morning_plan]\<rparr>"

definition wake_up :: new_plan_item where
  "wake_up =
     \<lparr>n_item_text = ''Wake up at 6 AM'', n_item_type = Task, n_timing = None, n_status = Pending,
      n_aiGenerated = False, n_parentId = None\<rparr>"

definition empty_item_patch :: plan_item_patch where
  "empty_item_patch =
     \<lparr>p_item_id = None, p_item_text = None, p_item_type = None, p_timing = None, p_status = None,
      p_aiGenerated = None, p_parentId = None, p_order = None\<rparr>"

definition wake_item :: plan_item where
  "wake_item =
     \<lparr>item_id = ''item-1'', item_text = ''Wake up at 6 AM'', item_type = Task, timing = None,
      status = Pending, aiGenerated = False, parentId = None, order = 0\<rparr>"


definition routine_plan :: plan where
  "routine_plan =
     morning_plan\<lparr>structuredData := (structuredData morning_plan)\<lparr>items := [wake_item]\<rparr>,
                  version := 2, updatedAt := 2000\<rparr>"

definition routine_world :: world where
  "routine_world = empty_world\<lparr>plansStore := [routine_plan]\<rparr>"






definition tags_patch :: structured_plan_data_patch where
  "tags_patch =
     \<lparr>p_sd_type = None, p_items = None, p_schedule = None, p_goals = None,
      p_tags = Some [''health''], p_category = None, p_estimatedDuration = None\<rparr>"

definition tags_input :: update_plan_input where
  "tags_input =
     \<lparr>up_id = ''plan-1'', up_title = None, up_content = None, up_structuredData = Some tags_patch\<rparr>"

definition tagged_plan :: plan where
  "tagged_plan =
     routine_plan\<lparr>structuredData := (structuredData routine_plan)\<lparr>tags := [''health'']\<rparr>,
                  version := 3, updatedAt := 5000\<rparr>"

definition missing_input :: update_plan_input where
  "missing_input =
     \<lparr>up_id = ''missing'', up_title = Some ''New title'', up_content = None,
      up_structuredData = None\<rparr>"

definition stalled_world :: world where
  "stalled_world =
     empty_world
       \<lparr>syncQueueStore :=
          [\<lparr>sq_id = ''q-1'', operation = CreateOp, sq_planId = ''plan-1'', data = Some morning_plan,
            timestamp = 1001, retryCount = 0\<rparr>],
        failing := [GetAllSyncItems]\<rparr>"

definition wake_earlier :: change where
  "wake_earlier =
     \<lparr>ch_operation = Modify, target = ''items.0.text'', oldValue = JString ''Wake up at 6 AM'',
      newValue = JString ''Wake up at 5:30 AM'', description = ''Wake up earlier'',
      ch_confidence = Some (9 / 10)\<rparr>"

definition add_stretching :: change where
  "add_stretching =
     \<lparr>ch_operation = Add, target = ''items.1'', oldValue = JUndefined,
      newValue = JString ''Stretch for 10 minutes'', description = ''Add stretching'',
      ch_confidence = None\<rparr>"

definition rename_plan :: change where
  "rename_plan =
     \<lparr>ch_operation = Modify, target = ''title'', oldValue = JString ''Morning Routine'',
      newValue = JString ''Early Morning Routine'', description = ''Rename the plan'',
      ch_confidence = Some (1 / 2)\<rparr>"

definition pending_enhancement :: enhancement where
  "pending_enhancement =
     \<lparr>enh_id = ''enh-1'', enh_planId = ''plan-1'', enh_type = Structure,
      changes = [wake_earlier, add_stretching, rename_plan], confidence = 4 / 5,
      reasoning = ''A calmer start of the day'', enh_status = PendingStatus,
      enh_createdAt = 6000, appliedAt = None, rejectedAt = None, userFeedback = None\<rparr>"

definition approved_enhancement :: enhancement where
  "approved_enhancement = pending_enhancement\<lparr>enh_status := Approved, appliedAt := Some 7000\<rparr>"

definition review_world :: world where
  "review_world = empty_world\<lparr>plansStore := [routine_plan], enhancementsStore := [pending_enhancement]\<rparr>"

definition approved_world :: world where
  "approved_world =
     empty_world\<lparr>plansStore := [routine_plan], enhancementsStore := [approved_enhancement]\<rparr>"

definition example_uuid :: "nat \<Rightarrow> string" where
  "example_uuid k = ''hist-'' @ string_of_nat k"

definition example_now :: "nat \<Rightarrow> date" where
  "example_now k = 7000 + int k"

definition renamed_plan :: plan where
  "renamed_plan = routine_plan\<lparr>title := ''Early Morning Routine'', version := 3, updatedAt := 7000\<rparr>"

definition rename_entry :: change_history_entry where
  "rename_entry =
     \<lparr>h_id = ''hist-1'', h_enhancementId = ''enh-1'', h_planId = ''plan-1'',
      changeId = ''enh-1-change-2'', h_appliedAt = 7000, appliedBy = ''user-1'',
      originalValue = JString ''Morning Routine'', appliedValue = JString ''Early Morning Routine'',
      rollbackData = Some (ChangeData Modify ''title'')\<rparr>"

definition applied_world :: world where
  "applied_world =
     empty_world\<lparr>plansStore := [renamed_plan], enhancementsStore := [approved_enhancement],
                 changeHistoryStore := [rename_entry]\<rparr>"

definition example_locale :: "date \<Rightarrow> string" where
  "example_locale d = ''1/1/1970, 12:00:07 AM''"

definition rollback_enhancement :: enhancement where
  "rollback_enhancement =
     \<lparr>enh_id = ''enh-2'', enh_planId = ''plan-1'', enh_type = Optimization,
      changes =
        [\<lparr>ch_operation = Modify, target = ''title'', oldValue = JString ''Early Morning Routine'',
          newValue = JString ''Morning Routine'',
          description = ''Rollback of change from 1/1/1970, 12:00:07 AM'',
          ch_confidence = Some 1\<rparr>],
      confidence = 1, reasoning = ''User-requested rollback of previous change'',
      enh_status = Approved, enh_createdAt = 8000, appliedAt = Some 8001, rejectedAt = None,
      userFeedback = None\<rparr>"

definition rollback_entry :: change_history_entry where
  "rollback_entry =
     \<lparr>h_id = ''hist-2'', h_enhancementId = ''enh-2'', h_planId = ''plan-1'',
      changeId = ''enh-2-change-0'', h_appliedAt = 8002, appliedBy = ''user-1'',
      originalValue = JString ''Early Morning Routine'', appliedValue = JString ''Morning Routine'',
      rollbackData = Some (IsRollback ''hist-1'')\<rparr>"

definition forty_items :: "plan_item list" where
  "forty_items =
     map (\<lambda>i. \<lparr>item_id = ''item-'' @ string_of_nat i, item_text = ''Step'', item_type = Task,
                timing = None, status = (if i < 23 then Completed else Pending),
                aiGenerated = False, parentId = None, order = int i\<rparr>) [0..<40]"

definition forty_plan :: plan where
  "forty_plan =
     morning_plan\<lparr>plan_id := ''plan-40'',
                  structuredData := (structuredData morning_plan)\<lparr>items := forty_items\<rparr>,
                  version := 64, updatedAt := 64000\<rparr>"

definition touch_input :: update_plan_input where
  "touch_input =
     \<lparr>up_id = ''plan-1'', up_title = None, up_content = None, up_structuredData = None\<rparr>"

definition huge_plan :: plan where
  "huge_plan = routine_plan\<lparr>version := 2 ^ 53\<rparr>"

definition huge_world :: world where
  "huge_world = empty_world\<lparr>plansStore := [huge_plan]\<rparr>"

definition queue_broken_world :: world where
  "queue_broken_world =
     empty_world\<lparr>plansStore := [routine_plan], failing := [PutSyncItem], isOnline := False\<rparr>"

definition mixed_mutations :: "mutation list" where
  "mixed_mutations =
     [AddPlanItem ''plan-1'' wake_up ''item-1'' 2000 ''q-2'' 2001,
      UpdatePlanItem ''plan-1'' ''item-9'' (empty_item_patch\<lparr>p_item_text := Some ''Updated''\<rparr>)
        2500 ''q-3'' 2501,
      UpdatePlan tags_input 3000 ''q-4'' 3001,
      UpdatePlanItem ''plan-1'' ''item-1'' (empty_item_patch\<lparr>p_status := Some Completed\<rparr>)
        4000 ''q-5'' 4001,
      RemovePlanItem ''plan-1'' ''item-1'' 5000 ''q-6'' 5001]"

section \<open>Properties of the number model\<close>

lemma floorlog_rat_bounds:
  assumes "0 < a"
  shows "(2::rat) ^ (floorlog 2 (nat a) - 1) \<le> of_int a \<and> of_int a < (2::rat) ^ floorlog 2 (nat a)"
proof -
  have "0 < nat a" using assms by simp
  from floorlog_bounds[OF this, of 2]
  have n: "2 ^ (floorlog 2 (nat a) - 1) \<le> nat a" "nat a < 2 ^ floorlog 2 (nat a)"
    by simp_all
  have e: "(of_int a :: rat) = of_nat (nat a)"
    using assms by simp
  have "(of_nat (2 ^ (floorlog 2 (nat a) - 1)) :: rat) \<le> of_nat (nat a)"
    using n(1) by (simp only: of_nat_le_iff)
  moreover have "(of_nat (nat a) :: rat) < of_nat (2 ^ floorlog 2 (nat a))"
    using n(2) by (simp only: of_nat_less_iff)
  ultimately show ?thesis
    by (simp add: e)
qed

lemma ilog2_bounds:
  assumes "0 < x"
  shows "2 powi ilog2 x \<le> x \<and> x < 2 powi (ilog2 x + 1)"
proof -
  obtain a b where q: "quotient_of x = (a, b)"
    by (cases "quotient_of x")
  have b: "0 < b" using q by (rule quotient_of_denom_pos)
  have x: "x = of_int a / of_int b" using q by (rule quotient_of_div)
  have a: "0 < a"
    using assms b x by (simp add: zero_less_divide_iff)
  define la where "la = floorlog 2 (nat a)"
  define lb where "lb = floorlog 2 (nat b)"
  have la: "(2::rat) ^ (la - 1) \<le> of_int a" "of_int a < (2::rat) ^ la"
    using floorlog_rat_bounds[OF a] by (simp_all add: la_def)
  have lb: "(2::rat) ^ (lb - 1) \<le> of_int b" "of_int b < (2::rat) ^ lb"
    using floorlog_rat_bounds[OF b] by (simp_all add: lb_def)
  have la1: "1 \<le> la" and lb1: "1 \<le> lb"
    using a b by (simp_all add: la_def lb_def floorlog_def)
  have xb: "x * of_int b = of_int a"
    using b x by simp
  have up: "x < 2 powi (int la - int lb + 1)"
  proof -
    have "x * 2 ^ (lb - 1) \<le> x * of_int b"
      using lb(1) assms by (simp add: mult_left_mono)
    also have "\<dots> < 2 ^ la" using xb la(2) by simp
    finally have "x < 2 ^ la / 2 ^ (lb - 1)"
      by (simp add: pos_less_divide_eq)
    also have "\<dots> = 2 powi (int la - int (lb - 1))"
      by (simp add: power_int_diff)
    also have "int la - int (lb - 1) = int la - int lb + 1"
      using lb1 by simp
    finally show ?thesis .
  qed
  have lo: "2 powi (int la - int lb - 1) < x"
  proof -
    have "(2::rat) ^ (la - 1) \<le> x * of_int b" using xb la(1) by simp
    also have "\<dots> < x * 2 ^ lb"
      using lb(2) assms by (simp add: mult_strict_left_mono)
    finally have s: "2 ^ (la - 1) / 2 ^ lb < x"
      by (simp add: pos_divide_less_eq)
    have e: "int la - int lb - 1 = int (la - 1) - int lb"
      using la1 by simp
    have r: "(2::rat) powi (int la - int lb - 1) = 2 ^ (la - 1) / 2 ^ lb"
      unfolding e by (simp add: power_int_diff)
    show ?thesis
      unfolding r by (rule s)
  qed
  show ?thesis
    using up lo by (auto simp: ilog2_def q la_def lb_def Let_def bitlen_def)
qed

lemma round_ties_even_near: "\<bar>of_int (round_ties_even y) - y\<bar> \<le> 1 / 2"
proof -
  have "of_int \<lfloor>y\<rfloor> \<le> y" "y < of_int \<lfloor>y\<rfloor> + 1"
    by linarith+
  then show ?thesis
    by (auto simp: round_ties_even_def Let_def abs_le_iff)
qed

text \<open>
  The model rounds to a nearest number with a 53-bit significand: the result is
  an integer multiple of the unit in the last place of \<open>x\<close> and differs from
  \<open>x\<close> by at most half that unit.
\<close>

lemma binary64_nearest:
  assumes "0 < x"
  shows "binary64 x = of_int (round_ties_even (x / 2 powi (ilog2 x - 52))) * 2 powi (ilog2 x - 52) \<and>
         \<bar>binary64 x - x\<bar> \<le> 2 powi (ilog2 x - 52) / 2"
proof -
  define u :: rat where "u = 2 powi (ilog2 x - 52)"
  have u: "0 < u" by (simp add: u_def)
  have b: "binary64 x = of_int (round_ties_even (x / u)) * u"
    using assms by (simp add: binary64_def u_def Let_def)
  have "binary64 x - x = (of_int (round_ties_even (x / u)) - x / u) * u"
    using u by (simp add: b left_diff_distrib)
  then have "\<bar>binary64 x - x\<bar> = \<bar>of_int (round_ties_even (x / u)) - x / u\<bar> * u"
    using u by (simp add: abs_mult)
  also have "\<dots> \<le> (1 / 2) * u"
    using u round_ties_even_near[of "x / u"] by (simp only: mult_right_mono less_imp_le)
  finally show ?thesis
    using b by (simp add: u_def)
qed

lemma binary64_one_tenth: "binary64 (1 / 10) = 3602879701896397 / 36028797018963968"
  by code_simp

lemma binary64_exact: "binary64 (1 / 8) = 1 / 8 \<and> binary64 100 = 100 \<and> binary64 (25 / 2) = 25 / 2"
  by code_simp

lemma round_ties_even_of_int: "round_ties_even (of_int m) = m"
  by (simp add: round_ties_even_def)

lemma binary64_of_int_exact:
  assumes "0 < n" and "n \<le> 2 ^ 53"
  shows "binary64 (of_int n) = of_int n"
proof -
  define x :: rat where "x = of_int n"
  have x1: "1 \<le> x"
    using assms(1) by (simp add: x_def)
  have xu: "x \<le> 2 ^ 53"
    using assms(2) by (simp add: x_def)
  define e where "e = ilog2 x"
  have lo: "2 powi e \<le> x" and hi: "x < 2 powi (e + 1)"
    using ilog2_bounds[of x] x1 by (simp_all add: e_def)
  have e0: "0 \<le> e"
  proof (rule ccontr)
    assume "\<not> 0 \<le> e"
    then have "e + 1 \<le> 0" by simp
    then have "(2::rat) powi (e + 1) \<le> 2 powi 0"
      by (intro power_int_increasing) simp_all
    with hi x1 show False by simp
  qed
  have e53: "e \<le> 53"
  proof (rule ccontr)
    assume "\<not> e \<le> 53"
    then have "54 \<le> e" by simp
    then have "(2::rat) powi 54 \<le> 2 powi e"
      by (intro power_int_increasing) simp_all
    with lo xu show False by simp
  qed
  have b: "binary64 x = of_int (round_ties_even (x / 2 powi (e - 52))) * 2 powi (e - 52)"
    using x1 by (simp add: binary64_def e_def Let_def)
  show ?thesis
  proof (cases "e \<le> 52")
    case True
    define j where "j = nat (52 - e)"
    have "e - 52 = - int j"
      using True by (simp add: j_def)
    then have p: "(2::rat) powi (e - 52) = 1 / 2 ^ j"
      by (simp add: power_int_minus inverse_eq_divide)
    have q: "x / (1 / 2 ^ j) = of_int (n * 2 ^ j)"
      by (simp add: x_def)
    have "binary64 x = of_int (n * 2 ^ j) * (1 / 2 ^ j)"
      unfolding b p q round_ties_even_of_int ..
    then show ?thesis
      by (simp add: x_def)
  next
    case False
    with e53 have e: "e = 53" by simp
    from lo xu have x: "x = 2 ^ 53"
      by (simp add: e)
    have q: "x / 2 powi (e - 52) = of_int (2 ^ 52)"
      by (simp add: e x)
    have "binary64 x = of_int (2 ^ 52) * 2 powi (e - 52)"
      unfolding b q round_ties_even_of_int ..
    then show ?thesis
      by (simp add: x_def[symmetric] e x)
  qed
qed

lemma number_add_one:
  assumes "0 \<le> v" and "v < 2 ^ 53"
  shows "number_add v 1 = v + 1"
proof -
  have "binary64 (of_int (v + 1)) = of_int (v + 1)"
    using assms by (intro binary64_of_int_exact) simp_all
  then show ?thesis
    by (simp add: number_add_def)
qed

lemma number_add_one_saturates: "number_add (2 ^ 53) 1 = 2 ^ 53"
  by code_simp

section \<open>Properties of the stores\<close>

lemma store_get_key: "store_get key k xs = Some y \<Longrightarrow> key y = k"
  by (auto simp: store_get_def find_Some_iff)

lemma store_get_put_same: "store_get key (key x) (store_put key x xs) = Some x"
proof (induction xs)
  case Nil
  then show ?case by (simp add: store_get_def store_put_def)
next
  case (Cons a xs)
  then show ?case by (auto simp: store_get_def store_put_def)
qed

lemma find_replace_other:
  "k \<noteq> key x \<Longrightarrow>
     find (\<lambda>y. key y = k) (map (\<lambda>y. if key y = key x then x else y) xs) = find (\<lambda>y. key y = k) xs"
  by (induction xs) auto

lemma find_snoc_other: "\<not> P x \<Longrightarrow> find P (xs @ [x]) = find P xs"
  by (induction xs) auto

lemma store_get_put_other:
  "k \<noteq> key x \<Longrightarrow> store_get key k (store_put key x xs) = store_get key k xs"
  by (simp add: store_get_def store_put_def find_replace_other find_snoc_other)

lemma save_and_queue_Inr:
  assumes "save_and_queue opn p ev quuid qnow w = (Inr r, w')"
  shows "r = p \<and> plansStore w' = store_put plan_id p (plansStore w)"
  using assms
  by (auto simp: save_and_queue_def idb_savePlan_def idb_addToSyncQueue_def emit_def
      split: sum.splits if_splits)

lemma catch_emit_Inr: "catch_emit r = (Inr v, w') \<longleftrightarrow> r = (Inr v, w')"
  by (cases r) (auto simp: catch_emit_def split: sum.splits)


lemma idb_getPlan_Inr: "idb_getPlan k w = Inr r \<Longrightarrow> store_get plan_id k (plansStore w) = r"
  by (auto simp: idb_getPlan_def split: sum.splits if_splits)

lemma createPlan_Inr:
  assumes "createPlan input uuid now quuid qnow w = (Inr p', w')"
  shows "plan_id p' = uuid \<and> version p' = 1 \<and> plansStore w' = store_put plan_id p' (plansStore w)"
  using assms
  by (auto simp: createPlan_def Let_def catch_emit_Inr split: sum.splits dest!: save_and_queue_Inr)

lemma updatePlan_Inr:
  assumes "updatePlan input now quuid qnow w = (Inr p', w')"
  shows "\<exists>p. store_get plan_id (up_id input) (plansStore w) = Some p \<and>
             p' = p\<lparr>plan_id := up_id input,
                    title := (case up_title input of None \<Rightarrow> title p | Some t \<Rightarrow> t),
                    content := (case up_content input of None \<Rightarrow> content p | Some c \<Rightarrow> c),
                    structuredData := spread_structuredData (structuredData p) (up_structuredData input),
                    version := number_add (version p) 1, updatedAt := now\<rparr> \<and>
             plansStore w' = store_put plan_id p' (plansStore w)"
  using assms
  by (auto simp: updatePlan_def Let_def catch_emit_Inr
      split: sum.splits option.splits dest!: save_and_queue_Inr idb_getPlan_Inr)

lemma addPlanItem_Inr:
  assumes "addPlanItem planId item uuid now quuid qnow w = (Inr p', w')"
  shows "\<exists>p. store_get plan_id planId (plansStore w) = Some p \<and>
             p' = p\<lparr>structuredData := (structuredData p)
                      \<lparr>items := items (structuredData p) @
                         [\<lparr>item_id = uuid, item_text = n_item_text item, item_type = n_item_type item,
                           timing = n_timing item, status = n_status item,
                           aiGenerated = n_aiGenerated item, parentId = n_parentId item,
                           order = int (length (items (structuredData p)))\<rparr>]\<rparr>,
                    version := number_add (version p) 1, updatedAt := now\<rparr> \<and>
             plansStore w' = store_put plan_id p' (plansStore w)"
  using assms
  by (auto simp: addPlanItem_def Let_def catch_emit_Inr
      split: sum.splits option.splits dest!: save_and_queue_Inr idb_getPlan_Inr)

lemma updatePlanItem_Inr:
  assumes "updatePlanItem planId itemId updates now quuid qnow w = (Inr p', w')"
  shows "\<exists>p i. store_get plan_id planId (plansStore w) = Some p \<and>
             findIndex (\<lambda>item. item_id item = itemId) (items (structuredData p)) = Some i \<and>
             p' = p\<lparr>structuredData := (structuredData p)
                      \<lparr>items := (items (structuredData p))
                         [i := spread_item (items (structuredData p) ! i) updates]\<rparr>,
                    version := number_add (version p) 1, updatedAt := now\<rparr> \<and>
             plansStore w' = store_put plan_id p' (plansStore w)"
  using assms
  by (auto simp: updatePlanItem_def Let_def catch_emit_Inr
      split: sum.splits option.splits dest!: save_and_queue_Inr idb_getPlan_Inr)

lemma removePlanItem_Inr:
  assumes "removePlanItem planId itemId now quuid qnow w = (Inr p', w')"
  shows "\<exists>p. store_get plan_id planId (plansStore w) = Some p \<and>
             p' = p\<lparr>structuredData := (structuredData p)
                      \<lparr>items := reorder (filter (\<lambda>item. item_id item \<noteq> itemId)
                                           (items (structuredData p)))\<rparr>,
                    version := number_add (version p) 1, updatedAt := now\<rparr> \<and>
             plansStore w' = store_put plan_id p' (plansStore w)"
  using assms
  by (auto simp: removePlanItem_def Let_def catch_emit_Inr
      split: sum.splits option.splits dest!: save_and_queue_Inr idb_getPlan_Inr)

section \<open>Version stamping\<close>

lemma save_and_queue_healthy:
  "failing w = [] \<Longrightarrow> fst (save_and_queue opn p ev quuid qnow w) = Inr p"
  by (simp add: save_and_queue_def idb_savePlan_def idb_addToSyncQueue_def ensureDB_def
      idb_init_def fails_def)

lemma catch_emit_fst_Inr: "fst r = Inr v \<Longrightarrow> fst (catch_emit r) = Inr v"
  by (cases r) (simp add: catch_emit_def)

lemma idb_healthy:
  "failing w = [] \<Longrightarrow>
   idb_init w = Inr () \<and> idb_getPlan k w = Inr (store_get plan_id k (plansStore w))"
  by (simp add: idb_init_def idb_getPlan_def ensureDB_def fails_def)

lemma findIndex_member:
  "k \<in> set (map f xs) \<Longrightarrow> \<exists>i. findIndex (\<lambda>x. f x = k) xs = Some i"
  by (induction xs) auto

lemma createPlan_healthy:
  assumes "failing w = []"
  shows "\<exists>p w'. createPlan input uuid now quuid qnow w = (Inr p, w')"
proof -
  have "\<exists>p. fst (createPlan input uuid now quuid qnow w) = Inr p"
    using assms
    by (simp add: createPlan_def Let_def idb_healthy catch_emit_fst_Inr save_and_queue_healthy)
  then show ?thesis
    by (metis prod.collapse)
qed

lemma apply_mutation_healthy:
  assumes "failing w = []"
    and "store_get plan_id (mutation_planId m) (plansStore w) = Some p"
    and "mutation_applicable m p"
  shows "\<exists>p1 w1. apply_mutation m w = (Inr p1, w1)"
proof -
  have "\<exists>p1. fst (apply_mutation m w) = Inr p1"
  proof (cases m)
    case (UpdatePlan input now quuid qnow)
    with assms show ?thesis
      by (simp add: updatePlan_def Let_def idb_healthy catch_emit_fst_Inr save_and_queue_healthy)
  next
    case (AddPlanItem planId item uuid now quuid qnow)
    with assms show ?thesis
      by (simp add: addPlanItem_def Let_def idb_healthy catch_emit_fst_Inr save_and_queue_healthy)
  next
    case (UpdatePlanItem planId itemId updates now quuid qnow)
    with assms(3) obtain i where
      "findIndex (\<lambda>item. item_id item = itemId) (items (structuredData p)) = Some i"
      using findIndex_member[of itemId item_id "items (structuredData p)"] by auto
    with UpdatePlanItem assms show ?thesis
      by (simp add: updatePlanItem_def Let_def idb_healthy catch_emit_fst_Inr
          save_and_queue_healthy)
  next
    case (RemovePlanItem planId itemId now quuid qnow)
    with assms show ?thesis
      by (simp add: removePlanItem_def Let_def idb_healthy catch_emit_fst_Inr
          save_and_queue_healthy)
  qed
  then show ?thesis
    by (metis prod.collapse)
qed

lemma apply_mutation_version:
  assumes "apply_mutation m w = (Inr p', w')"
    and "store_get plan_id (mutation_planId m) (plansStore w) = Some p"
  shows "version p' = number_add (version p) 1 \<and>
         store_get plan_id (mutation_planId m) (plansStore w') = Some p'"
proof -
  have k: "plan_id p = mutation_planId m"
    using assms(2) by (rule store_get_key)
  show ?thesis
  proof (cases m)
    case (UpdatePlan input now quuid qnow)
    with assms updatePlan_Inr[of input now quuid qnow w p' w'] show ?thesis
      using store_get_put_same[of plan_id p' "plansStore w"] by auto
  next
    case (AddPlanItem planId item uuid now quuid qnow)
    with assms k addPlanItem_Inr[of planId item uuid now quuid qnow w p' w'] show ?thesis
      using store_get_put_same[of plan_id p' "plansStore w"] by auto
  next
    case (UpdatePlanItem planId itemId updates now quuid qnow)
    with assms k updatePlanItem_Inr[of planId itemId updates now quuid qnow w p' w'] show ?thesis
      using store_get_put_same[of plan_id p' "plansStore w"] by auto
  next
    case (RemovePlanItem planId itemId now quuid qnow)
    with assms k removePlanItem_Inr[of planId itemId now quuid qnow w p' w'] show ?thesis
      using store_get_put_same[of plan_id p' "plansStore w"] by auto
  qed
qed

lemma save_and_queue_frame:
  "failing (snd (save_and_queue opn p ev quuid qnow w)) = failing w \<and>
   isOnline (snd (save_and_queue opn p ev quuid qnow w)) = isOnline w"
  by (auto simp: save_and_queue_def idb_savePlan_def idb_addToSyncQueue_def emit_def
      split: sum.splits)

lemma catch_emit_frame:
  "failing (snd (catch_emit r)) = failing (snd r) \<and> isOnline (snd (catch_emit r)) = isOnline (snd r)"
  by (cases r) (simp add: catch_emit_def emit_def split: sum.splits)

lemma apply_mutation_frame:
  "failing (snd (apply_mutation m w)) = failing w \<and>
   isOnline (snd (apply_mutation m w)) = isOnline w"
  by (cases m)
    (simp_all add: updatePlan_def addPlanItem_def updatePlanItem_def removePlanItem_def Let_def
      catch_emit_frame save_and_queue_frame split: sum.splits option.splits)

lemma save_and_queue_Inl:
  assumes "save_and_queue opn p ev quuid qnow w = (Inl e, w')"
    and "isOnline w \<or> \<not> fails PutSyncItem w"
  shows "w' = w"
  using assms
  by (auto simp: save_and_queue_def idb_savePlan_def idb_addToSyncQueue_def ensureDB_def
      idb_init_def fails_def split: sum.splits if_splits)

lemma catch_emit_Inl:
  "catch_emit r = (Inl e, w1) \<Longrightarrow> \<exists>w0. r = (Inl e, w0) \<and> w1 = emit (ErrorEvent e) w0"
  by (cases r) (auto simp: catch_emit_def split: sum.splits)

lemma apply_mutation_failed:
  assumes "apply_mutation m w = (Inl e, w1)" and "isOnline w \<or> \<not> fails PutSyncItem w"
  shows "plansStore w1 = plansStore w"
proof -
  have s: "save_and_queue opn p ev quuid qnow w = (Inl e, w0) \<Longrightarrow> w0 = w" for opn p ev quuid qnow w0
    using assms(2) by (rule save_and_queue_Inl[rotated])
  show ?thesis
  proof (cases m)
    case (UpdatePlan input now quuid qnow)
    with assms(1) show ?thesis
      by (auto simp: updatePlan_def Let_def emit_def
          dest!: catch_emit_Inl s split: sum.splits option.splits)
  next
    case (AddPlanItem planId item uuid now quuid qnow)
    with assms(1) show ?thesis
      by (auto simp: addPlanItem_def Let_def emit_def
          dest!: catch_emit_Inl s split: sum.splits option.splits)
  next
    case (UpdatePlanItem planId itemId updates now quuid qnow)
    with assms(1) show ?thesis
      by (auto simp: updatePlanItem_def Let_def emit_def
          dest!: catch_emit_Inl s split: sum.splits option.splits)
  next
    case (RemovePlanItem planId itemId now quuid qnow)
    with assms(1) show ?thesis
      by (auto simp: removePlanItem_def Let_def emit_def
          dest!: catch_emit_Inl s split: sum.splits option.splits)
  qed
qed

lemma run_all_version:
  assumes "isOnline w \<or> \<not> fails PutSyncItem w"
    and "\<forall>m\<in>set ms. mutation_planId m = planId"
    and "store_get plan_id planId (plansStore w) = Some p"
    and "0 \<le> version p"
    and "version p + int (length ms) \<le> 2 ^ 53"
  shows "\<exists>p'. store_get plan_id planId (plansStore (snd (run_all ms w))) = Some p' \<and>
              version p' = version p + int (fst (run_all ms w))"
  using assms
proof (induction ms arbitrary: w p)
  case Nil
  then show ?case by simp
next
  case (Cons m ms)
  obtain r w1 where step: "apply_mutation m w = (r, w1)"
    by (cases "apply_mutation m w")
  have tm: "mutation_planId m = planId" and rest: "\<forall>m\<in>set ms. mutation_planId m = planId"
    using Cons.prems(2) by simp_all
  have fr: "isOnline w1 \<or> \<not> fails PutSyncItem w1"
    using apply_mutation_frame[of m w] Cons.prems(1) by (simp add: step fails_def)
  show ?case
  proof (cases r)
    case (Inl e)
    have "plansStore w1 = plansStore w"
      using apply_mutation_failed[OF step[unfolded Inl] Cons.prems(1)] .
    then have g: "store_get plan_id planId (plansStore w1) = Some p"
      using Cons.prems(3) by simp
    have b: "version p + int (length ms) \<le> 2 ^ 53"
      using Cons.prems(5) by simp
    from Cons.IH[OF fr rest g Cons.prems(4) b] show ?thesis
      by (simp add: step Inl)
  next
    case (Inr p1)
    have v: "version p < 2 ^ 53"
      using Cons.prems(5) by simp
    from apply_mutation_version[OF step[unfolded Inr]] Cons.prems(3) tm
    have "version p1 = number_add (version p) 1"
      and g: "store_get plan_id planId (plansStore w1) = Some p1"
      by auto
    then have v1: "version p1 = version p + 1"
      using number_add_one[OF Cons.prems(4) v] by simp
    have b: "0 \<le> version p1" "version p1 + int (length ms) \<le> 2 ^ 53"
      using v1 Cons.prems(4,5) by simp_all
    from Cons.IH[OF fr rest g b] v1 show ?thesis
      by (auto simp: step Inr split: prod.splits)
  qed
qed

text \<open>
  C2 as stated fails in two ways. The version is a number: a plan stored with
  version \<open>2 ^ 53\<close> is committed by a successful updatePlan with the same
  version, since \<open>2 ^ 53 + 1\<close> rounds back to \<open>2 ^ 53\<close>. And a call that is not
  successful can commit: offline, with the write to the sync queue failing,
  updatePlan raises after it has saved the plan, so the stored version has gone
  from 2 to 3 although no mutation succeeded.
\<close>

theorem version_not_plus_one_counterexample:
  "version huge_plan = 2 ^ 53 \<and>
   fst (updatePlan touch_input 5000 ''q-5'' 5001 huge_world) = Inr (huge_plan\<lparr>updatedAt := 5000\<rparr>) \<and>
   version (huge_plan\<lparr>updatedAt := 5000\<rparr>) = 2 ^ 53 \<and>
   map version (plansStore queue_broken_world) = [2] \<and>
   fst (updatePlan touch_input 5000 ''q-5'' 5001 queue_broken_world) =
     Inl (Error ''Failed to add item to sync queue'') \<and>
   map version (plansStore (snd (updatePlan touch_input 5000 ''q-5'' 5001 queue_broken_world))) = [3]"
proof -
  have 1: "version huge_plan = 2 ^ 53"
    by (simp add: huge_plan_def)
  have 2: "fst (updatePlan touch_input 5000 ''q-5'' 5001 huge_world) =
             Inr (huge_plan\<lparr>updatedAt := 5000\<rparr>)"
    by code_simp
  have 3: "version (huge_plan\<lparr>updatedAt := 5000\<rparr>) = 2 ^ 53"
    by (simp add: huge_plan_def)
  have 4: "map version (plansStore queue_broken_world) = [2]"
    by code_simp
  have 5: "fst (updatePlan touch_input 5000 ''q-5'' 5001 queue_broken_world) =
     Inl (Error ''Failed to add item to sync queue'')"
    by code_simp
  have 6: "map version (plansStore (snd (updatePlan touch_input 5000 ''q-5'' 5001 queue_broken_world))) = [3]"
    by code_simp
  show ?thesis
    by (intro conjI) (fact 1 2 3 4 5 6)+
qed

text \<open>
  C2, amended. createPlan yields version 1, and on a healthy store it succeeds.
  For a stored version from 0 up to but excluding \<open>2 ^ 53\<close>, every successful
  updatePlan, addPlanItem, updatePlanItem and removePlanItem commits a plan whose
  version is the stored version plus exactly 1, and the store then holds that plan;
  on a healthy store each of these calls does succeed when the plan exists (for
  updatePlanItem: and has the item). In a sequence of such calls on one plan,
  successful or not, run while the sync queue write cannot fail offline, a call
  that fails writes no plan, so the stored version after the sequence is the
  initial version plus the number of successful calls, as long as the initial
  version plus the length of the sequence does not exceed \<open>2 ^ 53\<close>.
\<close>

theorem version_counts_successful_mutations:
  "(failing w0 = [] \<longrightarrow>
      (\<exists>p0 w0'. createPlan input uuid now quuid qnow w0 = (Inr p0, w0') \<and> version p0 = 1 \<and>
         store_get plan_id uuid (plansStore w0') = Some p0)) \<and>
   (createPlan input1 uuid1 now1 quuid1 qnow1 w1 = (Inr p1, w1') \<longrightarrow> version p1 = 1) \<and>
   (failing w2 = [] \<and> store_get plan_id (mutation_planId m2) (plansStore w2) = Some p2 \<and>
    mutation_applicable m2 p2 \<and> 0 \<le> version p2 \<and> version p2 < 2 ^ 53
      \<longrightarrow> (\<exists>p2' w2'. apply_mutation m2 w2 = (Inr p2', w2') \<and> version p2' = version p2 + 1 \<and>
             store_get plan_id (mutation_planId m2) (plansStore w2') = Some p2')) \<and>
   (apply_mutation m3 w3 = (Inr p3', w3') \<and>
    store_get plan_id (mutation_planId m3) (plansStore w3) = Some p3 \<and>
    0 \<le> version p3 \<and> version p3 < 2 ^ 53
      \<longrightarrow> version p3' = version p3 + 1 \<and>
          store_get plan_id (mutation_planId m3) (plansStore w3') = Some p3') \<and>
   ((isOnline w4 \<or> \<not> fails PutSyncItem w4) \<and>
    (\<forall>m\<in>set ms. mutation_planId m = planId) \<and>
    store_get plan_id planId (plansStore w4) = Some p4 \<and>
    0 \<le> version p4 \<and> version p4 + int (length ms) \<le> 2 ^ 53
      \<longrightarrow> (\<exists>p4'. store_get plan_id planId (plansStore (snd (run_all ms w4))) = Some p4' \<and>
                 version p4' = version p4 + int (fst (run_all ms w4))))"
proof (intro conjI impI)
  assume "failing w0 = []"
  then obtain p0 w0' where c: "createPlan input uuid now quuid qnow w0 = (Inr p0, w0')"
    using createPlan_healthy by blast
  from createPlan_Inr[OF c] store_get_put_same[of plan_id p0 "plansStore w0"]
  have "version p0 = 1 \<and> store_get plan_id uuid (plansStore w0') = Some p0"
    by auto
  with c show "\<exists>p0 w0'. createPlan input uuid now quuid qnow w0 = (Inr p0, w0') \<and>
      version p0 = 1 \<and> store_get plan_id uuid (plansStore w0') = Some p0"
    by blast
next
  assume "createPlan input1 uuid1 now1 quuid1 qnow1 w1 = (Inr p1, w1')"
  from createPlan_Inr[OF this] show "version p1 = 1" by simp
next
  assume a: "failing w2 = [] \<and> store_get plan_id (mutation_planId m2) (plansStore w2) = Some p2 \<and>
    mutation_applicable m2 p2 \<and> 0 \<le> version p2 \<and> version p2 < 2 ^ 53"
  then obtain p2' w2' where s: "apply_mutation m2 w2 = (Inr p2', w2')"
    using apply_mutation_healthy[of w2 m2 p2] by blast
  from apply_mutation_version[OF s] a number_add_one[of "version p2"]
  have "version p2' = version p2 + 1 \<and>
        store_get plan_id (mutation_planId m2) (plansStore w2') = Some p2'"
    by auto
  with s show "\<exists>p2' w2'. apply_mutation m2 w2 = (Inr p2', w2') \<and> version p2' = version p2 + 1 \<and>
             store_get plan_id (mutation_planId m2) (plansStore w2') = Some p2'"
    by blast
next
  assume a: "apply_mutation m3 w3 = (Inr p3', w3') \<and>
    store_get plan_id (mutation_planId m3) (plansStore w3) = Some p3 \<and>
    0 \<le> version p3 \<and> version p3 < 2 ^ 53"
  with apply_mutation_version[of m3 w3 p3' w3' p3] number_add_one[of "version p3"]
  show "version p3' = version p3 + 1" by auto
next
  assume a: "apply_mutation m3 w3 = (Inr p3', w3') \<and>
    store_get plan_id (mutation_planId m3) (plansStore w3) = Some p3 \<and>
    0 \<le> version p3 \<and> version p3 < 2 ^ 53"
  with apply_mutation_version[of m3 w3 p3' w3' p3]
  show "store_get plan_id (mutation_planId m3) (plansStore w3') = Some p3'" by auto
next
  assume a: "(isOnline w4 \<or> \<not> fails PutSyncItem w4) \<and>
    (\<forall>m\<in>set ms. mutation_planId m = planId) \<and>
    store_get plan_id planId (plansStore w4) = Some p4 \<and>
    0 \<le> version p4 \<and> version p4 + int (length ms) \<le> 2 ^ 53"
  then show "\<exists>p4'. store_get plan_id planId (plansStore (snd (run_all ms w4))) = Some p4' \<and>
                 version p4' = version p4 + int (fst (run_all ms w4))"
    by (intro run_all_version) simp_all
qed

theorem version_counts_successful_mutations_witness:
  "createPlan morning_input ''plan-1'' 1000 ''q-1'' 1001 empty_world = (Inr morning_plan, morning_world) \<and>
   version morning_plan = 1 \<and>
   store_get plan_id ''plan-1'' (plansStore routine_world) = Some routine_plan \<and>
   version routine_plan = 2 \<and>
   fst (apply_mutation (UpdatePlan tags_input 5000 ''q-5'' 5001) routine_world) = Inr tagged_plan \<and>
   version tagged_plan = 3 \<and>
   map mutation_planId mixed_mutations = [''plan-1'', ''plan-1'', ''plan-1'', ''plan-1'', ''plan-1''] \<and>
   fst (run_all mixed_mutations morning_world) = 4 \<and>
   map version (plansStore (snd (run_all mixed_mutations morning_world))) = [5]"
proof -
  let ?m = "UpdatePlan tags_input 5000 ''q-5'' 5001"
  have c: "createPlan morning_input ''plan-1'' 1000 ''q-1'' 1001 empty_world
             = (Inr morning_plan, morning_world)"
    by code_simp
  have f: "failing empty_world = []" "failing routine_world = []" "isOnline morning_world"
    by code_simp+
  have g: "store_get plan_id (mutation_planId ?m) (plansStore routine_world) = Some routine_plan"
    "store_get plan_id ''plan-1'' (plansStore routine_world) = Some routine_plan"
    "store_get plan_id ''plan-1'' (plansStore morning_world) = Some morning_plan"
    by code_simp+
  have a: "mutation_applicable ?m routine_plan"
    by simp
  have v: "version routine_plan = 2" "version morning_plan = 1"
    by (simp_all add: routine_plan_def morning_plan_def)
  have u: "fst (apply_mutation ?m routine_world) = Inr tagged_plan"
    by code_simp
  then have u': "apply_mutation ?m routine_world = (Inr tagged_plan, snd (apply_mutation ?m routine_world))"
    by (metis prod.collapse)
  have i: "map mutation_planId mixed_mutations =
             [''plan-1'', ''plan-1'', ''plan-1'', ''plan-1'', ''plan-1'']"
    by code_simp
  have i': "\<forall>m\<in>set mixed_mutations. mutation_planId m = ''plan-1''"
    by code_simp
  have n: "fst (run_all mixed_mutations morning_world) = 4" "int (length mixed_mutations) = 5"
    by code_simp+
  have l: "length (plansStore (snd (run_all mixed_mutations morning_world))) = 1"
    by code_simp
  note t = version_counts_successful_mutations[of empty_world morning_input "''plan-1''" 1000
      "''q-1''" 1001 morning_input "''plan-1''" 1000 "''q-1''" 1001 empty_world morning_plan
      morning_world routine_world ?m routine_plan ?m routine_world tagged_plan
      "snd (apply_mutation ?m routine_world)" routine_plan morning_world mixed_mutations
      "''plan-1''" morning_plan]
  note t2 = t[THEN conjunct2, THEN conjunct1]
  note t3 = t[THEN conjunct2, THEN conjunct2, THEN conjunct1]
  note t4 = t[THEN conjunct2, THEN conjunct2, THEN conjunct2, THEN conjunct1]
  note t5 = t[THEN conjunct2, THEN conjunct2, THEN conjunct2, THEN conjunct2]
  from mp[OF t2 c] have v1: "version morning_plan = 1" .
  have h3: "failing routine_world = [] \<and>
    store_get plan_id (mutation_planId ?m) (plansStore routine_world) = Some routine_plan \<and>
    mutation_applicable ?m routine_plan \<and> 0 \<le> version routine_plan \<and>
    version routine_plan < 2 ^ 53"
    using f(2) g(1) a by (simp add: v(1))
  from mp[OF t3 h3] u have v3': "version tagged_plan = version routine_plan + 1"
    by auto
  have h4: "apply_mutation ?m routine_world =
      (Inr tagged_plan, snd (apply_mutation ?m routine_world)) \<and>
    store_get plan_id (mutation_planId ?m) (plansStore routine_world) = Some routine_plan \<and>
    0 \<le> version routine_plan \<and> version routine_plan < 2 ^ 53"
    using u' g(1) by (simp add: v(1))
  from mp[OF t4 h4] have v3: "version tagged_plan = 3"
    by (simp add: v(1))
  have h5: "(isOnline morning_world \<or> \<not> fails PutSyncItem morning_world) \<and>
    (\<forall>m\<in>set mixed_mutations. mutation_planId m = ''plan-1'') \<and>
    store_get plan_id ''plan-1'' (plansStore morning_world) = Some morning_plan \<and>
    0 \<le> version morning_plan \<and> version morning_plan + int (length mixed_mutations) \<le> 2 ^ 53"
    using f(3) i' g(3) by (simp add: v(2) n(2))
  from mp[OF t5 h5]
  obtain p' where p': "store_get plan_id ''plan-1''
        (plansStore (snd (run_all mixed_mutations morning_world))) = Some p'"
    "version p' = 5"
    by (auto simp: v(2) n(1))
  from l obtain q where q: "plansStore (snd (run_all mixed_mutations morning_world)) = [q]"
    by (cases "plansStore (snd (run_all mixed_mutations morning_world))") auto
  with p' have "map version (plansStore (snd (run_all mixed_mutations morning_world))) = [5]"
    by (auto simp: store_get_def split: if_splits)
  with c v1 g(2) v(1) u v3 i n(1) show ?thesis by simp
qed

section \<open>Item order\<close>









lemma pair_of_fst: "fst r = a \<Longrightarrow> r = (a, snd r)"
  by auto




section \<open>Merging the structured payload\<close>

text \<open>
  C7. A successful updatePlan commits a plan whose structured payload keeps every
  field that the patch does not name (all of it when no patch is given), and the
  store then holds that plan.
\<close>

theorem updatePlan_merges_structuredData:
  "updatePlan input now quuid qnow w = (Inr p', w') \<and>
   store_get plan_id (up_id input) (plansStore w) = Some p
     \<longrightarrow> store_get plan_id (up_id input) (plansStore w') = Some p' \<and>
         (up_structuredData input = None \<longrightarrow> structuredData p' = structuredData p) \<and>
         (up_structuredData input = Some q \<longrightarrow>
            (p_sd_type q = None \<longrightarrow> sd_type (structuredData p') = sd_type (structuredData p)) \<and>
            (p_items q = None \<longrightarrow> items (structuredData p') = items (structuredData p)) \<and>
            (p_schedule q = None \<longrightarrow> schedule (structuredData p') = schedule (structuredData p)) \<and>
            (p_goals q = None \<longrightarrow> goals (structuredData p') = goals (structuredData p)) \<and>
            (p_tags q = None \<longrightarrow> tags (structuredData p') = tags (structuredData p)) \<and>
            (p_category q = None \<longrightarrow> category (structuredData p') = category (structuredData p)) \<and>
            (p_estimatedDuration q = None \<longrightarrow>
               estimatedDuration (structuredData p') = estimatedDuration (structuredData p)))"
proof (intro impI)
  assume a: "updatePlan input now quuid qnow w = (Inr p', w') \<and>
   store_get plan_id (up_id input) (plansStore w) = Some p"
  from a updatePlan_Inr[of input now quuid qnow w p' w']
  have p': "p' = p\<lparr>plan_id := up_id input,
                    title := (case up_title input of None \<Rightarrow> title p | Some t \<Rightarrow> t),
                    content := (case up_content input of None \<Rightarrow> content p | Some c \<Rightarrow> c),
                    structuredData := spread_structuredData (structuredData p) (up_structuredData input),
                    version := number_add (version p) 1, updatedAt := now\<rparr>"
    and st: "plansStore w' = store_put plan_id p' (plansStore w)"
    by auto
  from p' have k: "plan_id p' = up_id input" by simp
  have g: "store_get plan_id (up_id input) (plansStore w') = Some p'"
    using store_get_put_same[of plan_id p' "plansStore w"] st k by simp
  have sd: "structuredData p' = spread_structuredData (structuredData p) (up_structuredData input)"
    using p' by simp
  show "store_get plan_id (up_id input) (plansStore w') = Some p' \<and>
         (up_structuredData input = None \<longrightarrow> structuredData p' = structuredData p) \<and>
         (up_structuredData input = Some q \<longrightarrow>
            (p_sd_type q = None \<longrightarrow> sd_type (structuredData p') = sd_type (structuredData p)) \<and>
            (p_items q = None \<longrightarrow> items (structuredData p') = items (structuredData p)) \<and>
            (p_schedule q = None \<longrightarrow> schedule (structuredData p') = schedule (structuredData p)) \<and>
            (p_goals q = None \<longrightarrow> goals (structuredData p') = goals (structuredData p)) \<and>
            (p_tags q = None \<longrightarrow> tags (structuredData p') = tags (structuredData p)) \<and>
            (p_category q = None \<longrightarrow> category (structuredData p') = category (structuredData p)) \<and>
            (p_estimatedDuration q = None \<longrightarrow>
               estimatedDuration (structuredData p') = estimatedDuration (structuredData p)))"
    using g by (simp add: sd spread_structuredData_def)
qed

theorem updatePlan_merges_structuredData_witness:
  "fst (updatePlan tags_input 5000 ''q-5'' 5001 routine_world) = Inr tagged_plan \<and>
   store_get plan_id ''plan-1'' (plansStore routine_world) = Some routine_plan \<and>
   items (structuredData routine_plan) = [wake_item] \<and>
   items (structuredData tagged_plan) = items (structuredData routine_plan) \<and>
   sd_type (structuredData tagged_plan) = sd_type (structuredData routine_plan) \<and>
   tags (structuredData tagged_plan) = [''health'']"
proof -
  have a1: "fst (updatePlan tags_input 5000 ''q-5'' 5001 routine_world) = Inr tagged_plan"
    by code_simp
  have a2: "store_get plan_id (up_id tags_input) (plansStore routine_world) = Some routine_plan"
    by code_simp
  have a3: "up_structuredData tags_input = Some tags_patch"
    by code_simp
  have a4: "p_items tags_patch = None" "p_sd_type tags_patch = None"
    by code_simp+
  have a5: "items (structuredData routine_plan) = [wake_item]"
    by code_simp
  have a6: "tags (structuredData tagged_plan) = [''health'']"
    by code_simp
  have a7: "up_id tags_input = ''plan-1''"
    by code_simp
  from updatePlan_merges_structuredData[of tags_input 5000 "''q-5''" 5001 routine_world
      tagged_plan "snd (updatePlan tags_input 5000 ''q-5'' 5001 routine_world)" routine_plan
      tags_patch] pair_of_fst[OF a1] a2 a3 a4
  have "items (structuredData tagged_plan) = items (structuredData routine_plan) \<and>
        sd_type (structuredData tagged_plan) = sd_type (structuredData routine_plan)"
    by blast
  with a1 a2 a5 a6 a7 show ?thesis by simp
qed

section \<open>Missing plans and items\<close>

lemma store_delete_absent: "store_get key k xs = None \<Longrightarrow> store_delete key k xs = xs"
  by (auto simp: store_get_def store_delete_def find_None_iff filter_id_conv)

lemma updatePlan_missing:
  assumes "\<not> fails OpenDB w" and "\<not> fails GetPlan w"
    and "store_get plan_id (up_id input) (plansStore w) = None"
  shows "updatePlan input now quuid qnow w =
           (Inl (Error ''Plan not found''), emit (ErrorEvent (Error ''Plan not found'')) w)"
  using assms
  by (simp add: updatePlan_def idb_init_def idb_getPlan_def ensureDB_def catch_emit_def)

lemma updatePlanItem_missing:
  assumes "\<not> fails OpenDB w" and "\<not> fails GetPlan w"
    and "store_get plan_id planId (plansStore w) = Some p"
    and "findIndex (\<lambda>item. item_id item = itemId) (items (structuredData p)) = None"
  shows "updatePlanItem planId itemId updates now quuid qnow w =
           (Inl (Error ''Plan item not found''), emit (ErrorEvent (Error ''Plan item not found'')) w)"
  using assms
  by (simp add: updatePlanItem_def idb_init_def idb_getPlan_def ensureDB_def catch_emit_def)

lemma findIndex_None: "findIndex P xs = None \<longleftrightarrow> (\<forall>x\<in>set xs. \<not> P x)"
  by (induction xs) (auto split: option.splits)

lemma deletePlan_missing:
  assumes "failing w = []" and "store_get plan_id planId (plansStore w) = None"
  shows "fst (deletePlan planId quuid qnow w) = Inr () \<and>
         plansStore (snd (deletePlan planId quuid qnow w)) = plansStore w"
  using assms
  by (simp add: deletePlan_def idb_init_def idb_deletePlan_def ensureDB_def catch_emit_def
      fails_def idb_addToSyncQueue_def emit_def store_delete_absent)

text \<open>
  C5 as stated fails: deletePlan never looks the plan up. On a store without the
  plan it returns normally and announces the deletion, and when offline it also
  writes a delete item to the sync queue. removePlanItem with an identity that no
  item has returns normally too and commits a new version.
\<close>

theorem deletePlan_missing_counterexample:
  "deletePlan ''missing'' ''q-9'' 9000 empty_world =
     (Inr (), empty_world\<lparr>emitted := [PlanDeleted ''missing'']\<rparr>) \<and>
   syncQueueStore (snd (deletePlan ''missing'' ''q-9'' 9000 (goOffline empty_world))) =
     [\<lparr>sq_id = ''q-9'', operation = DeleteOp, sq_planId = ''missing'', data = None,
       timestamp = 9000, retryCount = 0\<rparr>] \<and>
   fst (removePlanItem ''plan-1'' ''missing'' 4000 ''q-4'' 4001 routine_world) =
     Inr (routine_plan\<lparr>version := 3, updatedAt := 4000\<rparr>)"
  by code_simp

text \<open>
  C5, amended. While the open and the read of the plan succeed, updatePlan with
  the identity of a plan that the store does not hold raises \<open>Plan not found\<close>,
  and updatePlanItem on a stored plan with an identity that none of its items has
  raises \<open>Plan item not found\<close>; both leave every object store as it was and
  only emit the error. deletePlan on a healthy store raises nothing for an
  identity that the store does not hold, and leaves the plans as they were.
\<close>

theorem missing_plan_or_item:
  "(\<not> fails OpenDB w \<and> \<not> fails GetPlan w \<and>
    store_get plan_id (up_id input) (plansStore w) = None
      \<longrightarrow> updatePlan input now quuid qnow w =
            (Inl (Error ''Plan not found''), emit (ErrorEvent (Error ''Plan not found'')) w) \<and>
          plansStore (emit (ErrorEvent (Error ''Plan not found'')) w) = plansStore w \<and>
          syncQueueStore (emit (ErrorEvent (Error ''Plan not found'')) w) = syncQueueStore w) \<and>
   (\<not> fails OpenDB w2 \<and> \<not> fails GetPlan w2 \<and>
    store_get plan_id planId (plansStore w2) = Some p \<and>
    itemId \<notin> set (map item_id (items (structuredData p)))
      \<longrightarrow> updatePlanItem planId itemId updates now2 quuid2 qnow2 w2 =
            (Inl (Error ''Plan item not found''),
             emit (ErrorEvent (Error ''Plan item not found'')) w2) \<and>
          plansStore (emit (ErrorEvent (Error ''Plan item not found'')) w2) = plansStore w2 \<and>
          syncQueueStore (emit (ErrorEvent (Error ''Plan item not found'')) w2) = syncQueueStore w2) \<and>
   (failing w3 = [] \<and> store_get plan_id planId3 (plansStore w3) = None
      \<longrightarrow> fst (deletePlan planId3 quuid3 qnow3 w3) = Inr () \<and>
          plansStore (snd (deletePlan planId3 quuid3 qnow3 w3)) = plansStore w3)"
proof (intro conjI impI)
  assume a: "\<not> fails OpenDB w \<and> \<not> fails GetPlan w \<and>
    store_get plan_id (up_id input) (plansStore w) = None"
  then show "updatePlan input now quuid qnow w =
            (Inl (Error ''Plan not found''), emit (ErrorEvent (Error ''Plan not found'')) w)"
    by (simp add: updatePlan_missing)
next
  assume a: "\<not> fails OpenDB w2 \<and> \<not> fails GetPlan w2 \<and>
    store_get plan_id planId (plansStore w2) = Some p \<and>
    itemId \<notin> set (map item_id (items (structuredData p)))"
  then have "findIndex (\<lambda>item. item_id item = itemId) (items (structuredData p)) = None"
    by (auto simp: findIndex_None)
  with a show "updatePlanItem planId itemId updates now2 quuid2 qnow2 w2 =
            (Inl (Error ''Plan item not found''),
             emit (ErrorEvent (Error ''Plan item not found'')) w2)"
    by (simp add: updatePlanItem_missing)
next
  assume a: "failing w3 = [] \<and> store_get plan_id planId3 (plansStore w3) = None"
  then show "fst (deletePlan planId3 quuid3 qnow3 w3) = Inr ()"
    by (simp add: deletePlan_missing)
next
  assume a: "failing w3 = [] \<and> store_get plan_id planId3 (plansStore w3) = None"
  then show "plansStore (snd (deletePlan planId3 quuid3 qnow3 w3)) = plansStore w3"
    by (simp add: deletePlan_missing)
qed (simp_all add: emit_def)

theorem missing_plan_or_item_witness:
  "store_get plan_id ''missing'' (plansStore routine_world) = None \<and>
   updatePlan missing_input 6000 ''q-6'' 6001 routine_world =
     (Inl (Error ''Plan not found''), routine_world\<lparr>emitted := [ErrorEvent (Error ''Plan not found'')]\<rparr>) \<and>
   store_get plan_id ''plan-1'' (plansStore routine_world) = Some routine_plan \<and>
   updatePlanItem ''plan-1'' ''item-9'' (empty_item_patch\<lparr>p_item_text := Some ''Updated''\<rparr>)
       6000 ''q-6'' 6001 routine_world =
     (Inl (Error ''Plan item not found''),
      routine_world\<lparr>emitted := [ErrorEvent (Error ''Plan item not found'')]\<rparr>) \<and>
   fst (deletePlan ''missing'' ''q-9'' 9000 routine_world) = Inr () \<and>
   plansStore (snd (deletePlan ''missing'' ''q-9'' 9000 routine_world)) = [routine_plan]"
proof -
  have f: "\<not> fails OpenDB routine_world" "\<not> fails GetPlan routine_world"
    "failing routine_world = []"
    by code_simp+
  have a: "store_get plan_id (up_id missing_input) (plansStore routine_world) = None"
    "store_get plan_id ''missing'' (plansStore routine_world) = None"
    by code_simp+
  have b: "store_get plan_id ''plan-1'' (plansStore routine_world) = Some routine_plan"
    "''item-9'' \<notin> set (map item_id (items (structuredData routine_plan)))"
    by code_simp+
  have e: "emit (ErrorEvent (Error ''Plan not found'')) routine_world =
             routine_world\<lparr>emitted := [ErrorEvent (Error ''Plan not found'')]\<rparr>"
    "emit (ErrorEvent (Error ''Plan item not found'')) routine_world =
             routine_world\<lparr>emitted := [ErrorEvent (Error ''Plan item not found'')]\<rparr>"
    "plansStore routine_world = [routine_plan]"
    by code_simp+
  from missing_plan_or_item[of routine_world missing_input 6000 "''q-6''" 6001
      routine_world "''plan-1''" routine_plan "''item-9''"
      "empty_item_patch\<lparr>p_item_text := Some ''Updated''\<rparr>" 6000 "''q-6''" 6001
      routine_world "''missing''" "''q-9''" 9000] f a b e
  show ?thesis by simp
qed

section \<open>The sync queue\<close>

lemma fails_no_failing: "failing w = [] \<Longrightarrow> \<not> fails r w"
  by (simp add: fails_def)

lemma store_put_fresh: "key x \<notin> set (map key xs) \<Longrightarrow> store_put key x xs = xs @ [x]"
  by (simp add: store_put_def)

lemma drain_healthy:
  "failing w = [] \<Longrightarrow>
   drain qs w = w\<lparr>syncQueueStore := filter (\<lambda>y. sq_id y \<notin> set (map sq_id qs)) (syncQueueStore w)\<rparr>"
proof (induction qs arbitrary: w)
  case Nil
  then show ?case by simp
next
  case (Cons q qs)
  let ?w1 = "w\<lparr>syncQueueStore := store_delete sq_id (sq_id q) (syncQueueStore w)\<rparr>"
  have r: "idb_removeFromSyncQueue (sq_id q) w = Inr ?w1"
    using Cons.prems
    by (simp add: idb_removeFromSyncQueue_def ensureDB_def idb_init_def fails_def)
  have f: "failing ?w1 = []"
    using Cons.prems by simp
  have "drain (q # qs) w = drain qs ?w1"
    by (simp add: r)
  also have "\<dots> = ?w1\<lparr>syncQueueStore :=
      filter (\<lambda>y. sq_id y \<notin> set (map sq_id qs)) (syncQueueStore ?w1)\<rparr>"
    by (rule Cons.IH[OF f])
  also have "\<dots> = w\<lparr>syncQueueStore :=
      filter (\<lambda>y. sq_id y \<notin> set (map sq_id (q # qs))) (syncQueueStore w)\<rparr>"
    by (simp add: store_delete_def conj_commute)
  finally show ?case .
qed

lemma processSyncQueue_healthy:
  assumes "failing w = []"
  shows "syncQueueStore (processSyncQueue w) = []"
proof -
  have q: "idb_getSyncQueue w = Inr (sort_key timestamp (syncQueueStore w))"
    using assms by (simp add: idb_getSyncQueue_def ensureDB_def idb_init_def fails_def)
  have i: "idb_init w = Inr ()"
    using assms by (simp add: idb_init_def fails_def)
  show ?thesis
    by (simp add: processSyncQueue_def q i drain_healthy[OF assms] filter_empty_conv)
qed

lemma createPlan_offline:
  assumes "\<not> isOnline w" and "failing w = []" and "quuid \<notin> set (map sq_id (syncQueueStore w))"
  shows "\<exists>p w'. createPlan input uuid now quuid qnow w = (Inr p, w') \<and>
           plan_id p = uuid \<and>
           store_get plan_id uuid (plansStore w') = Some p \<and>
           syncQueueStore w' = syncQueueStore w @
             [\<lparr>sq_id = quuid, operation = CreateOp, sq_planId = uuid, data = Some p,
               timestamp = qnow, retryCount = 0\<rparr>] \<and>
           failing w' = []"
proof -
  define p where "p =
    \<lparr>plan_id = uuid, userId = cp_userId input, title = cp_title input,
     content = cp_content input,
     structuredData =
       spread_structuredData
         \<lparr>sd_type = Custom, items = [], schedule = None, goals = None, tags = [],
          category = None, estimatedDuration = None\<rparr>
         (cp_structuredData input),
     metadata = \<lparr>source = UserInput, language = ''en'', meta_complexity = Simple,
                 lastAiProcessed = None, processingVersion = None\<rparr>,
     version = 1, createdAt = now, updatedAt = now\<rparr>"
  define w' where "w' = w
    \<lparr>plansStore := store_put plan_id p (plansStore w),
     syncQueueStore := syncQueueStore w @
       [\<lparr>sq_id = quuid, operation = CreateOp, sq_planId = uuid, data = Some p,
         timestamp = qnow, retryCount = 0\<rparr>],
     emitted := emitted w @ [PlanCreated p]\<rparr>"
  have k: "plan_id p = uuid"
    by (simp add: p_def)
  have c: "createPlan input uuid now quuid qnow w = (Inr p, w')"
    using assms
    by (simp add: createPlan_def Let_def idb_init_def save_and_queue_def idb_savePlan_def
        ensureDB_def fails_def idb_addToSyncQueue_def catch_emit_def emit_def store_put_fresh
        p_def[symmetric] k w'_def)
  have g: "store_get plan_id uuid (plansStore w') = Some p"
    using store_get_put_same[of plan_id p "plansStore w"] k by (simp add: w'_def)
  from c k g assms(2) show ?thesis
    by (intro exI[of _ p] exI[of _ w']) (simp add: w'_def)
qed

lemma goOnline_healthy:
  assumes "failing w = []"
  shows "syncQueueStore (goOnline w) = [] \<and> isOnline (goOnline w) \<and>
         plansStore (goOnline w) = plansStore w"
proof -
  let ?w = "w\<lparr>isOnline := True\<rparr>"
  have f: "failing ?w = []"
    using assms by simp
  have q: "idb_getSyncQueue ?w = Inr (sort_key timestamp (syncQueueStore ?w))"
    using f by (simp add: idb_getSyncQueue_def ensureDB_def idb_init_def fails_def)
  have i: "idb_init ?w = Inr ()"
    using f by (simp add: idb_init_def fails_def)
  show ?thesis
    by (simp add: goOnline_def processSyncQueue_def q i drain_healthy[OF f] filter_empty_conv)
qed

text \<open>
  C8. While the service is offline and no request fails, createPlan succeeds,
  stores the new plan and appends exactly one item to the sync queue: operation
  create, the new plan's identity, the whole new plan as data. The drain started by
  the online event then leaves the queue empty.
\<close>

theorem offline_create_queued_then_drained:
  "\<not> isOnline w \<and> failing w = [] \<and> quuid \<notin> set (map sq_id (syncQueueStore w))
     \<longrightarrow> (\<exists>p w'. createPlan input uuid now quuid qnow w = (Inr p, w') \<and>
            plan_id p = uuid \<and>
            store_get plan_id uuid (plansStore w') = Some p \<and>
            syncQueueStore w' = syncQueueStore w @
              [\<lparr>sq_id = quuid, operation = CreateOp, sq_planId = uuid, data = Some p,
                timestamp = qnow, retryCount = 0\<rparr>] \<and>
            isOnline (goOnline w') \<and>
            syncQueueStore (goOnline w') = [])"
proof
  assume a: "\<not> isOnline w \<and> failing w = [] \<and> quuid \<notin> set (map sq_id (syncQueueStore w))"
  then obtain p w' where c: "createPlan input uuid now quuid qnow w = (Inr p, w')"
    and r: "plan_id p = uuid" "store_get plan_id uuid (plansStore w') = Some p"
      "syncQueueStore w' = syncQueueStore w @
              [\<lparr>sq_id = quuid, operation = CreateOp, sq_planId = uuid, data = Some p,
                timestamp = qnow, retryCount = 0\<rparr>]"
    and f: "failing w' = []"
    using createPlan_offline[of w quuid input uuid now qnow] by blast
  from goOnline_healthy[OF f] c r
  show "\<exists>p w'. createPlan input uuid now quuid qnow w = (Inr p, w') \<and>
            plan_id p = uuid \<and>
            store_get plan_id uuid (plansStore w') = Some p \<and>
            syncQueueStore w' = syncQueueStore w @
              [\<lparr>sq_id = quuid, operation = CreateOp, sq_planId = uuid, data = Some p,
                timestamp = qnow, retryCount = 0\<rparr>] \<and>
            isOnline (goOnline w') \<and>
            syncQueueStore (goOnline w') = []"
    by blast
qed

theorem offline_create_queued_then_drained_witness:
  "\<not> isOnline (goOffline empty_world) \<and>
   fst (createPlan morning_input ''plan-1'' 1000 ''q-1'' 1001 (goOffline empty_world)) =
     Inr morning_plan \<and>
   syncQueueStore (snd (createPlan morning_input ''plan-1'' 1000 ''q-1'' 1001 (goOffline empty_world))) =
     [\<lparr>sq_id = ''q-1'', operation = CreateOp, sq_planId = ''plan-1'', data = Some morning_plan,
       timestamp = 1001, retryCount = 0\<rparr>] \<and>
   syncQueueStore
     (goOnline (snd (createPlan morning_input ''plan-1'' 1000 ''q-1'' 1001 (goOffline empty_world)))) = []"
proof -
  have h: "\<not> isOnline (goOffline empty_world)" "failing (goOffline empty_world) = []"
    "''q-1'' \<notin> set (map sq_id (syncQueueStore (goOffline empty_world)))"
    by code_simp+
  have c: "fst (createPlan morning_input ''plan-1'' 1000 ''q-1'' 1001 (goOffline empty_world)) =
     Inr morning_plan"
    by code_simp
  have q: "syncQueueStore (snd (createPlan morning_input ''plan-1'' 1000 ''q-1'' 1001 (goOffline empty_world))) =
     [\<lparr>sq_id = ''q-1'', operation = CreateOp, sq_planId = ''plan-1'', data = Some morning_plan,
       timestamp = 1001, retryCount = 0\<rparr>]"
    by code_simp
  from offline_create_queued_then_drained[of "goOffline empty_world" "''q-1''" morning_input
      "''plan-1''" 1000 1001] h
  have "syncQueueStore
     (goOnline (snd (createPlan morning_input ''plan-1'' 1000 ''q-1'' 1001 (goOffline empty_world)))) = []"
    by auto
  with h(1) c q show ?thesis by blast
qed

text \<open>
  C9. getSyncQueueStatus returns a status in every world. When the open or the
  read of the queue fails the status is pending 0 with no items, which is also the
  status of an empty queue on a healthy store.
\<close>

theorem getSyncQueueStatus_never_raises:
  "(\<exists>r. getSyncQueueStatus w = Inr r) \<and>
   (fails OpenDB w \<or> fails GetAllSyncItems w
      \<longrightarrow> getSyncQueueStatus w = Inr \<lparr>pending = 0, status_items = []\<rparr>) \<and>
   (failing w = [] \<and> syncQueueStore w = []
      \<longrightarrow> getSyncQueueStatus w = Inr \<lparr>pending = 0, status_items = []\<rparr>)"
  by (auto simp: getSyncQueueStatus_def idb_init_def idb_getSyncQueue_def ensureDB_def fails_def
      split: sum.splits)

theorem getSyncQueueStatus_never_raises_witness:
  "fails GetAllSyncItems stalled_world \<and> length (syncQueueStore stalled_world) = 1 \<and>
   getSyncQueueStatus stalled_world = Inr \<lparr>pending = 0, status_items = []\<rparr> \<and>
   getSyncQueueStatus empty_world = Inr \<lparr>pending = 0, status_items = []\<rparr>"
proof -
  have h: "fails GetAllSyncItems stalled_world" "length (syncQueueStore stalled_world) = 1"
    "failing empty_world = []" "syncQueueStore empty_world = []"
    by code_simp+
  from getSyncQueueStatus_never_raises[of stalled_world]
    getSyncQueueStatus_never_raises[of empty_world] h
  show ?thesis by blast
qed

section \<open>Approving, rejecting and editing\<close>

lemma getEnhancementById_healthy:
  "failing w = [] \<Longrightarrow>
   getEnhancementById eid w = Inr (store_get enh_id eid (enhancementsStore w))"
  by (simp add: getEnhancementById_def enh_ensureDB_def fails_def)

lemma saveEnhancement_healthy:
  "failing w = [] \<Longrightarrow>
   saveEnhancement e w = Inr (w\<lparr>enhancementsStore := store_put enh_id e (enhancementsStore w)\<rparr>)"
  by (simp add: saveEnhancement_def enh_ensureDB_def fails_def)

lemma saveChangeHistory_healthy:
  "failing w = [] \<Longrightarrow>
   saveChangeHistory es w =
     Inr (w\<lparr>changeHistoryStore := foldl (\<lambda>st entry. store_put h_id entry st) (changeHistoryStore w) es\<rparr>)"
  by (simp add: saveChangeHistory_def enh_ensureDB_def fails_def)

lemma approveChanges_healthy:
  assumes "failing w = []" and "store_get enh_id eid (enhancementsStore w) = Some enh"
  shows "approveChanges eid changeIds byUser uuid now appliedNow w =
           (Inr (snd (approve_loop enh eid byUser uuid now 0
                        (case changeIds of Some ids \<Rightarrow> ids | None \<Rightarrow> all_change_ids eid enh)
                        ([], \<lparr>successful = [], failed = []\<rparr>))),
            w\<lparr>changeHistoryStore :=
                 foldl (\<lambda>st entry. store_put h_id entry st) (changeHistoryStore w)
                   (fst (approve_loop enh eid byUser uuid now 0
                        (case changeIds of Some ids \<Rightarrow> ids | None \<Rightarrow> all_change_ids eid enh)
                        ([], \<lparr>successful = [], failed = []\<rparr>))),
               enhancementsStore :=
                 store_put enh_id (enh\<lparr>enh_status := Approved, appliedAt := Some appliedNow\<rparr>)
                   (enhancementsStore w)\<rparr>)"
  using assms
  by (simp add: approveChanges_def getEnhancementById_healthy saveChangeHistory_healthy
      saveEnhancement_healthy Let_def case_prod_unfold)

lemma approveChanges_sets_approved:
  assumes "failing w = []" and "store_get enh_id eid (enhancementsStore w) = Some enh"
  shows "store_get enh_id eid
           (enhancementsStore (snd (approveChanges eid changeIds byUser uuid now appliedNow w))) =
         Some (enh\<lparr>enh_status := Approved, appliedAt := Some appliedNow\<rparr>)"
proof -
  have k: "enh_id (enh\<lparr>enh_status := Approved, appliedAt := Some appliedNow\<rparr>) = eid"
    using store_get_key[OF assms(2)] by simp
  show ?thesis
    using store_get_put_same[of enh_id "enh\<lparr>enh_status := Approved, appliedAt := Some appliedNow\<rparr>"
        "enhancementsStore w"] k
    by (simp add: approveChanges_healthy[OF assms])
qed

lemma approve_loop_all_invalid:
  "\<forall>cid\<in>set ids. change_at enh (extractChangeIndex cid) = None \<Longrightarrow>
   approve_loop enh eid byUser uuid now k ids (hs, res) =
     (hs, res\<lparr>failed := failed res @ map (\<lambda>cid. (cid, Error ''Change not found'')) ids\<rparr>)"
  by (induction ids arbitrary: k res) auto

lemma rejectChanges_healthy:
  assumes "failing w = []" and "store_get enh_id eid (enhancementsStore w) = Some enh"
  shows "rejectChanges eid changeIds feedback byUser now w =
           (Inr \<lparr>successful = (case changeIds of Some ids \<Rightarrow> ids | None \<Rightarrow> all_change_ids eid enh),
                 failed = []\<rparr>,
            w\<lparr>enhancementsStore :=
                 store_put enh_id
                   (enh\<lparr>enh_status := Rejected, rejectedAt := Some now, userFeedback := feedback\<rparr>)
                   (enhancementsStore w)\<rparr>)"
  using assms
  by (simp add: rejectChanges_def getEnhancementById_healthy saveEnhancement_healthy Let_def)

lemma editChange_healthy:
  assumes "failing w = []" and "store_get enh_id eid (enhancementsStore w) = Some enh"
    and "0 \<le> extractChangeIndex cid" and "extractChangeIndex cid < int (length (changes enh))"
  shows "editChange eid cid v byUser w =
           (Inr (),
            w\<lparr>enhancementsStore :=
                 store_put enh_id
                   (enh\<lparr>changes := (changes enh)
                      [nat (extractChangeIndex cid) :=
                         (changes enh ! nat (extractChangeIndex cid))
                           \<lparr>newValue := v,
                            description :=
                              description (changes enh ! nat (extractChangeIndex cid)) @
                              '' (edited by user)''\<rparr>]\<rparr>)
                   (enhancementsStore w)\<rparr>)"
  using assms
  by (simp add: editChange_def getEnhancementById_healthy saveEnhancement_healthy Let_def)

text \<open>
  C10. On a healthy store approveChanges on an existing enhancement returns a
  batch result and leaves the enhancement stored with status approved and the
  appliedAt stamp, whichever identities were addressed. When every addressed
  identity is invalid the result has no success, one failure per identity, and no
  history entry is written; the status is approved all the same.
\<close>

theorem approveChanges_always_approves:
  "failing w = [] \<and> store_get enh_id eid (enhancementsStore w) = Some enh
     \<longrightarrow> (\<exists>result w'.
            approveChanges eid changeIds byUser uuid now appliedNow w = (Inr result, w') \<and>
            store_get enh_id eid (enhancementsStore w') =
              Some (enh\<lparr>enh_status := Approved, appliedAt := Some appliedNow\<rparr>) \<and>
            (changeIds = Some ids \<and>
             (\<forall>cid\<in>set ids. change_at enh (extractChangeIndex cid) = None)
               \<longrightarrow> successful result = [] \<and>
                   failed result = map (\<lambda>cid. (cid, Error ''Change not found'')) ids \<and>
                   changeHistoryStore w' = changeHistoryStore w))"
proof
  assume a: "failing w = [] \<and> store_get enh_id eid (enhancementsStore w) = Some enh"
  then have f: "failing w = []" and g: "store_get enh_id eid (enhancementsStore w) = Some enh"
    by simp_all
  let ?r = "approveChanges eid changeIds byUser uuid now appliedNow w"
  have 1: "?r = (Inr (projr (fst ?r)), snd ?r)"
    by (simp add: approveChanges_healthy[OF f g])
  have 2: "store_get enh_id eid (enhancementsStore (snd ?r)) =
              Some (enh\<lparr>enh_status := Approved, appliedAt := Some appliedNow\<rparr>)"
    by (rule approveChanges_sets_approved[OF f g])
  have 3: "changeIds = Some ids \<and>
             (\<forall>cid\<in>set ids. change_at enh (extractChangeIndex cid) = None)
               \<longrightarrow> successful (projr (fst ?r)) = [] \<and>
                   failed (projr (fst ?r)) = map (\<lambda>cid. (cid, Error ''Change not found'')) ids \<and>
                   changeHistoryStore (snd ?r) = changeHistoryStore w"
    by (auto simp: approveChanges_healthy[OF f g] approve_loop_all_invalid)
  from 1 2 3 show "\<exists>result w'.
            approveChanges eid changeIds byUser uuid now appliedNow w = (Inr result, w') \<and>
            store_get enh_id eid (enhancementsStore w') =
              Some (enh\<lparr>enh_status := Approved, appliedAt := Some appliedNow\<rparr>) \<and>
            (changeIds = Some ids \<and>
             (\<forall>cid\<in>set ids. change_at enh (extractChangeIndex cid) = None)
               \<longrightarrow> successful result = [] \<and>
                   failed result = map (\<lambda>cid. (cid, Error ''Change not found'')) ids \<and>
                   changeHistoryStore w' = changeHistoryStore w)"
    by blast
qed

theorem approveChanges_always_approves_witness:
  "store_get enh_id ''enh-1'' (enhancementsStore review_world) = Some pending_enhancement \<and>
   map extractChangeIndex [''enh-1-change-7'', ''enh-1-change-x'', ''nonsense''] = [7, - 1, - 1] \<and>
   fst (approveChanges ''enh-1'' (Some [''enh-1-change-7'', ''enh-1-change-x'', ''nonsense''])
          ''user-1'' example_uuid example_now 7000 review_world) =
     Inr \<lparr>successful = [],
          failed = [(''enh-1-change-7'', Error ''Change not found''),
                    (''enh-1-change-x'', Error ''Change not found''),
                    (''nonsense'', Error ''Change not found'')]\<rparr> \<and>
   store_get enh_id ''enh-1''
     (enhancementsStore
        (snd (approveChanges ''enh-1'' (Some [''enh-1-change-7'', ''enh-1-change-x'', ''nonsense''])
                ''user-1'' example_uuid example_now 7000 review_world))) =
     Some approved_enhancement"
proof -
  let ?ids = "[''enh-1-change-7'', ''enh-1-change-x'', ''nonsense'']"
  have h: "failing review_world = []"
    "store_get enh_id ''enh-1'' (enhancementsStore review_world) = Some pending_enhancement"
    by code_simp+
  have i: "map extractChangeIndex ?ids = [7, - 1, - 1]"
    by code_simp
  have j: "\<forall>cid\<in>set ?ids. change_at pending_enhancement (extractChangeIndex cid) = None"
    by code_simp
  have a: "approved_enhancement = pending_enhancement\<lparr>enh_status := Approved, appliedAt := Some 7000\<rparr>"
    by (simp add: approved_enhancement_def)
  from approveChanges_always_approves[of review_world "''enh-1''" pending_enhancement
      "Some ?ids" "''user-1''" example_uuid example_now 7000 ?ids] h j
  obtain result w' where
    r: "approveChanges ''enh-1'' (Some ?ids) ''user-1'' example_uuid example_now 7000 review_world
          = (Inr result, w')"
    and s: "store_get enh_id ''enh-1'' (enhancementsStore w') =
              Some (pending_enhancement\<lparr>enh_status := Approved, appliedAt := Some 7000\<rparr>)"
    and t: "successful result = []"
      "failed result = map (\<lambda>cid. (cid, Error ''Change not found'')) ?ids"
    by blast
  from t have "result = \<lparr>successful = [],
          failed = [(''enh-1-change-7'', Error ''Change not found''),
                    (''enh-1-change-x'', Error ''Change not found''),
                    (''nonsense'', Error ''Change not found'')]\<rparr>"
    by (cases result) simp
  with r s h i a show ?thesis by simp
qed

text \<open>
  C4 as stated fails: no operation reads the status. An enhancement that is
  already approved is turned into a rejected one by rejectChanges, and editChange
  succeeds on it and replaces the value of one of its changes.
\<close>

theorem approved_is_not_terminal_counterexample:
  "enh_status approved_enhancement = Approved \<and>
   store_get enh_id ''enh-1'' (enhancementsStore approved_world) = Some approved_enhancement \<and>
   rejectChanges ''enh-1'' None (Some ''Not now'') ''user-1'' 9000 approved_world =
     (Inr \<lparr>successful = [''enh-1-change-0'', ''enh-1-change-1'', ''enh-1-change-2''], failed = []\<rparr>,
      approved_world
        \<lparr>enhancementsStore :=
           [approved_enhancement
              \<lparr>enh_status := Rejected, rejectedAt := Some 9000, userFeedback := Some ''Not now''\<rparr>]\<rparr>) \<and>
   editChange ''enh-1'' ''enh-1-change-0'' (JString ''Wake up at 5 AM'') ''user-1'' approved_world =
     (Inr (),
      approved_world
        \<lparr>enhancementsStore :=
           [approved_enhancement
              \<lparr>changes :=
                 [wake_earlier\<lparr>newValue := JString ''Wake up at 5 AM'',
                               description := ''Wake up earlier (edited by user)''\<rparr>,
                  add_stretching, rename_plan]\<rparr>]\<rparr>)"
  by code_simp

text \<open>
  C4, amended. approveChanges, rejectChanges and editChange do not read the
  status of the enhancement. On a healthy store and for an existing enhancement
  of any status, approveChanges stores it as approved with the appliedAt stamp,
  rejectChanges stores it as rejected with the rejectedAt stamp and the feedback,
  and editChange succeeds whenever the addressed index is within the change list:
  it replaces the value of that change, marks its description and keeps the
  status.
\<close>

theorem status_is_never_checked:
  "failing w = [] \<and> store_get enh_id eid (enhancementsStore w) = Some enh
     \<longrightarrow> (\<exists>r w'. approveChanges eid changeIds byUser uuid now appliedNow w = (Inr r, w') \<and>
            store_get enh_id eid (enhancementsStore w') =
              Some (enh\<lparr>enh_status := Approved, appliedAt := Some appliedNow\<rparr>)) \<and>
         (\<exists>r w'. rejectChanges eid changeIds feedback byUser rejectedNow w = (Inr r, w') \<and>
            store_get enh_id eid (enhancementsStore w') =
              Some (enh\<lparr>enh_status := Rejected, rejectedAt := Some rejectedNow,
                        userFeedback := feedback\<rparr>)) \<and>
         (0 \<le> extractChangeIndex cid \<and> extractChangeIndex cid < int (length (changes enh))
            \<longrightarrow> (\<exists>w'. editChange eid cid v byUser w = (Inr (), w') \<and>
                   store_get enh_id eid (enhancementsStore w') =
                     Some (enh\<lparr>changes := (changes enh)
                        [nat (extractChangeIndex cid) :=
                           (changes enh ! nat (extractChangeIndex cid))
                             \<lparr>newValue := v,
                              description :=
                                description (changes enh ! nat (extractChangeIndex cid)) @
                                '' (edited by user)''\<rparr>]\<rparr>)))"
proof (intro impI conjI)
  assume a: "failing w = [] \<and> store_get enh_id eid (enhancementsStore w) = Some enh"
  then have f: "failing w = []" and g: "store_get enh_id eid (enhancementsStore w) = Some enh"
    by simp_all
  have k: "enh_id enh = eid"
    using g by (rule store_get_key)
  show "\<exists>r w'. approveChanges eid changeIds byUser uuid now appliedNow w = (Inr r, w') \<and>
            store_get enh_id eid (enhancementsStore w') =
              Some (enh\<lparr>enh_status := Approved, appliedAt := Some appliedNow\<rparr>)"
    using approveChanges_healthy[OF f g, of changeIds byUser uuid now appliedNow]
      approveChanges_sets_approved[OF f g, of changeIds byUser uuid now appliedNow]
    by (metis snd_conv)
  show "\<exists>r w'. rejectChanges eid changeIds feedback byUser rejectedNow w = (Inr r, w') \<and>
            store_get enh_id eid (enhancementsStore w') =
              Some (enh\<lparr>enh_status := Rejected, rejectedAt := Some rejectedNow,
                        userFeedback := feedback\<rparr>)"
    using store_get_put_same[of enh_id
        "enh\<lparr>enh_status := Rejected, rejectedAt := Some rejectedNow, userFeedback := feedback\<rparr>"
        "enhancementsStore w"] k
    by (simp add: rejectChanges_healthy[OF f g])
  assume b: "0 \<le> extractChangeIndex cid \<and> extractChangeIndex cid < int (length (changes enh))"
  let ?e = "enh\<lparr>changes := (changes enh)
                        [nat (extractChangeIndex cid) :=
                           (changes enh ! nat (extractChangeIndex cid))
                             \<lparr>newValue := v,
                              description :=
                                description (changes enh ! nat (extractChangeIndex cid)) @
                                '' (edited by user)''\<rparr>]\<rparr>"
  show "\<exists>w'. editChange eid cid v byUser w = (Inr (), w') \<and>
                   store_get enh_id eid (enhancementsStore w') = Some ?e"
    using store_get_put_same[of enh_id ?e "enhancementsStore w"] k b
    by (simp add: editChange_healthy[OF f g])
qed

theorem status_is_never_checked_witness:
  "store_get enh_id ''enh-1'' (enhancementsStore approved_world) = Some approved_enhancement \<and>
   extractChangeIndex ''enh-1-change-2'' = 2 \<and>
   fst (approveChanges ''enh-1'' None ''user-1'' example_uuid example_now 9500 approved_world) =
     Inr \<lparr>successful = [''enh-1-change-0'', ''enh-1-change-1'', ''enh-1-change-2''], failed = []\<rparr> \<and>
   store_get enh_id ''enh-1''
     (enhancementsStore
        (snd (approveChanges ''enh-1'' None ''user-1'' example_uuid example_now 9500 approved_world))) =
     Some (approved_enhancement\<lparr>appliedAt := Some 9500\<rparr>) \<and>
   store_get enh_id ''enh-1''
     (enhancementsStore
        (snd (rejectChanges ''enh-1'' None None ''user-1'' 9000 approved_world))) =
     Some (approved_enhancement\<lparr>enh_status := Rejected, rejectedAt := Some 9000\<rparr>) \<and>
   fst (editChange ''enh-1'' ''enh-1-change-2'' (JString ''Dawn Routine'') ''user-1'' approved_world) =
     Inr () \<and>
   store_get enh_id ''enh-1''
     (enhancementsStore
        (snd (editChange ''enh-1'' ''enh-1-change-2'' (JString ''Dawn Routine'') ''user-1''
                approved_world))) =
     Some (approved_enhancement
             \<lparr>changes :=
                [wake_earlier, add_stretching,
                 rename_plan\<lparr>newValue := JString ''Dawn Routine'',
                             description := ''Rename the plan (edited by user)''\<rparr>]\<rparr>)"
proof -
  have h: "failing approved_world = []"
    "store_get enh_id ''enh-1'' (enhancementsStore approved_world) = Some approved_enhancement"
    by code_simp+
  have i: "extractChangeIndex ''enh-1-change-2'' = 2"
    by code_simp
  have l: "int (length (changes approved_enhancement)) = 3"
    by code_simp
  have r: "fst (approveChanges ''enh-1'' None ''user-1'' example_uuid example_now 9500 approved_world) =
     Inr \<lparr>successful = [''enh-1-change-0'', ''enh-1-change-1'', ''enh-1-change-2''], failed = []\<rparr>"
    by code_simp
  have e: "approved_enhancement\<lparr>enh_status := Approved, appliedAt := Some 9500\<rparr> =
             approved_enhancement\<lparr>appliedAt := Some 9500\<rparr>"
    "approved_enhancement\<lparr>enh_status := Rejected, rejectedAt := Some 9000, userFeedback := None\<rparr> =
             approved_enhancement\<lparr>enh_status := Rejected, rejectedAt := Some 9000\<rparr>"
    "approved_enhancement\<lparr>changes := (changes approved_enhancement)
        [nat 2 := (changes approved_enhancement ! nat 2)
           \<lparr>newValue := JString ''Dawn Routine'',
            description := description (changes approved_enhancement ! nat 2) @ '' (edited by user)''\<rparr>]\<rparr> =
       approved_enhancement
             \<lparr>changes :=
                [wake_earlier, add_stretching,
                 rename_plan\<lparr>newValue := JString ''Dawn Routine'',
                             description := ''Rename the plan (edited by user)''\<rparr>]\<rparr>"
    by code_simp+
  from status_is_never_checked[of approved_world "''enh-1''" approved_enhancement None "''user-1''"
      example_uuid example_now 9500 None 9000 "''enh-1-change-2''" "JString ''Dawn Routine''"]
    h i l e r
  show ?thesis by auto
qed

section \<open>Rollback\<close>

lemma find_append_found: "find P xs = Some x \<Longrightarrow> find P (xs @ ys) = Some x"
  by (induction xs) (auto split: if_splits)

text \<open>
  C3 as stated fails: rollbackChange never writes to the plans. The plan whose
  title an applied change turned from \<open>Morning Routine\<close> into
  \<open>Early Morning Routine\<close> still has the new title after the rollback of that
  change has succeeded.
\<close>

theorem rollback_leaves_plan_counterexample:
  "store_get h_id ''hist-1'' (changeHistoryStore applied_world) = Some rename_entry \<and>
   originalValue rename_entry = JString ''Morning Routine'' \<and>
   map title (plansStore applied_world) = [''Early Morning Routine''] \<and>
   fst (rollbackChange ''hist-1'' ''user-1'' example_locale ''enh-2'' ''hist-2'' 8000 8001 8002
          applied_world) = Inr () \<and>
   map title
     (plansStore
        (snd (rollbackChange ''hist-1'' ''user-1'' example_locale ''enh-2'' ''hist-2'' 8000 8001 8002
                applied_world))) = [''Early Morning Routine'']"
  by code_simp

text \<open>
  C3, amended. On a healthy store, with fresh identities for the new records,
  rollbackChange of an existing history entry h succeeds and leaves the plans as
  they were. It appends exactly one history entry, whose original and applied
  values are those of h swapped and which is flagged as the rollback of h, and
  keeps every earlier entry, h included, unchanged. It appends one enhancement,
  already approved, whose single change is a modify at h's target (or
  \<open>unknown\<close>) from h's applied value back to h's original value.
\<close>

theorem rollback_appends_inverse_record:
  "failing w = [] \<and> store_get h_id hid (changeHistoryStore w) = Some h \<and>
   enhUuid \<notin> set (map enh_id (enhancementsStore w)) \<and>
   histUuid \<notin> set (map h_id (changeHistoryStore w))
     \<longrightarrow> (\<exists>w'. rollbackChange hid byUser toLocaleString enhUuid histUuid created applied now w =
                 (Inr (), w') \<and>
               plansStore w' = plansStore w \<and>
               changeHistoryStore w' = changeHistoryStore w @
                 [\<lparr>h_id = histUuid, h_enhancementId = enhUuid, h_planId = h_planId h,
                   changeId = enhUuid @ ''-change-0'', h_appliedAt = now, appliedBy = byUser,
                   originalValue = appliedValue h, appliedValue = originalValue h,
                   rollbackData = Some (IsRollback hid)\<rparr>] \<and>
               store_get h_id hid (changeHistoryStore w') = Some h \<and>
               enhancementsStore w' = enhancementsStore w @
                 [\<lparr>enh_id = enhUuid, enh_planId = h_planId h, enh_type = Optimization,
                   changes =
                     [\<lparr>ch_operation = Modify, target = rollback_target h,
                       oldValue = appliedValue h, newValue = originalValue h,
                       description = ''Rollback of change from '' @ toLocaleString (h_appliedAt h),
                       ch_confidence = Some 1\<rparr>],
                   confidence = 1, reasoning = ''User-requested rollback of previous change'',
                   enh_status = Approved, enh_createdAt = created, appliedAt = Some applied,
                   rejectedAt = None, userFeedback = None\<rparr>])"
proof
  assume a: "failing w = [] \<and> store_get h_id hid (changeHistoryStore w) = Some h \<and>
   enhUuid \<notin> set (map enh_id (enhancementsStore w)) \<and>
   histUuid \<notin> set (map h_id (changeHistoryStore w))"
  then have g: "store_get h_id hid (changeHistoryStore w @ ys) = Some h" for ys
    by (simp add: store_get_def find_append_found)
  from a show "\<exists>w'. rollbackChange hid byUser toLocaleString enhUuid histUuid created applied now w =
                 (Inr (), w') \<and>
               plansStore w' = plansStore w \<and>
               changeHistoryStore w' = changeHistoryStore w @
                 [\<lparr>h_id = histUuid, h_enhancementId = enhUuid, h_planId = h_planId h,
                   changeId = enhUuid @ ''-change-0'', h_appliedAt = now, appliedBy = byUser,
                   originalValue = appliedValue h, appliedValue = originalValue h,
                   rollbackData = Some (IsRollback hid)\<rparr>] \<and>
               store_get h_id hid (changeHistoryStore w') = Some h \<and>
               enhancementsStore w' = enhancementsStore w @
                 [\<lparr>enh_id = enhUuid, enh_planId = h_planId h, enh_type = Optimization,
                   changes =
                     [\<lparr>ch_operation = Modify, target = rollback_target h,
                       oldValue = appliedValue h, newValue = originalValue h,
                       description = ''Rollback of change from '' @ toLocaleString (h_appliedAt h),
                       ch_confidence = Some 1\<rparr>],
                   confidence = 1, reasoning = ''User-requested rollback of previous change'',
                   enh_status = Approved, enh_createdAt = created, appliedAt = Some applied,
                   rejectedAt = None, userFeedback = None\<rparr>]"
    by (simp add: rollbackChange_def enh_ensureDB_def getHistoryEntry_def fails_def
        saveEnhancement_def saveChangeHistory_def Let_def store_put_fresh g)
qed

theorem rollback_appends_inverse_record_witness:
  "store_get h_id ''hist-1'' (changeHistoryStore applied_world) = Some rename_entry \<and>
   rollbackChange ''hist-1'' ''user-1'' example_locale ''enh-2'' ''hist-2'' 8000 8001 8002
       applied_world =
     (Inr (),
      applied_world\<lparr>enhancementsStore := [approved_enhancement, rollback_enhancement],
                    changeHistoryStore := [rename_entry, rollback_entry]\<rparr>) \<and>
   plansStore
     (snd (rollbackChange ''hist-1'' ''user-1'' example_locale ''enh-2'' ''hist-2'' 8000 8001 8002
             applied_world)) = [renamed_plan]"
proof -
  have h: "failing applied_world = []"
    "store_get h_id ''hist-1'' (changeHistoryStore applied_world) = Some rename_entry"
    "''enh-2'' \<notin> set (map enh_id (enhancementsStore applied_world))"
    "''hist-2'' \<notin> set (map h_id (changeHistoryStore applied_world))"
    by code_simp+
  have p: "plansStore applied_world = [renamed_plan]"
    by code_simp
  have e: "rollbackChange ''hist-1'' ''user-1'' example_locale ''enh-2'' ''hist-2'' 8000 8001 8002
       applied_world =
     (Inr (),
      applied_world\<lparr>enhancementsStore := [approved_enhancement, rollback_enhancement],
                    changeHistoryStore := [rename_entry, rollback_entry]\<rparr>)"
    by code_simp
  from rollback_appends_inverse_record[of applied_world "''hist-1''" rename_entry "''enh-2''"
      "''hist-2''" "''user-1''" example_locale 8000 8001 8002] h
  have "plansStore
     (snd (rollbackChange ''hist-1'' ''user-1'' example_locale ''enh-2'' ''hist-2'' 8000 8001 8002
             applied_world)) = plansStore applied_world"
    by auto
  with h(2) p e show ?thesis by simp
qed


section \<open>Completion percentage\<close>

lemma getCompletionPercentage_no_items:
  "getTotalItemsCount plans planId = 0 \<Longrightarrow> getCompletionPercentage plans planId = 0"
  by (simp add: getCompletionPercentage_def)

lemma getCompletionPercentage_no_plan:
  "getPlan plans planId = None \<Longrightarrow> getCompletionPercentage plans planId = 0"
  by (simp add: getCompletionPercentage_def getTotalItemsCount_def)

text \<open>
  C6 fails on the code. For a plan with 40 items of which 23 are completed the
  exact percentage is 57.5, which rounds to 58. The code divides first:
  \<open>23 / 40\<close> is not a binary64 number, its nearest one lies below it, and the
  product with 100 rounds to a number just below 57.5, so \<^verbatim>\<open>Math.round\<close> returns
  57.
\<close>

theorem completion_percentage_of_23_in_40:
  "getTotalItemsCount [forty_plan] ''plan-40'' = 40 \<and>
   getCompletedItemsCount [forty_plan] ''plan-40'' = 23 \<and>
   binary64 (23 / 40) = 5179139571476070 / 2 ^ 53 \<and>
   binary64 (binary64 (23 / 40) * 100) = 8092405580431359 / 2 ^ 47 \<and>
   getCompletionPercentage [forty_plan] ''plan-40'' = 57 \<and>
   rounded_percentage 23 40 = 58"
proof -
  have 1: "getTotalItemsCount [forty_plan] ''plan-40'' = 40"
    by code_simp
  have 2: "getCompletedItemsCount [forty_plan] ''plan-40'' = 23"
    by code_simp
  have 3: "binary64 (23 / 40) = 5179139571476070 / 2 ^ 53"
    by code_simp
  have 4: "binary64 (binary64 (23 / 40) * 100) = 8092405580431359 / 2 ^ 47"
    by code_simp
  have 5: "getCompletionPercentage [forty_plan] ''plan-40'' = 57"
    by code_simp
  have 6: "rounded_percentage 23 40 = 58"
    by code_simp
  show ?thesis
    by (intro conjI) (fact 1 2 3 4 5 6)+
qed

end
